theory Spec2Isabelle
  imports Main
begin

section \<open>Thrown values and the error mapping\<close>

text \<open>
  The classes of \<open>@libsql/hrana-client\<close> that \<open>mapHranaError\<close> tests with \<open>instanceof\<close>.
  They are direct subclasses of \<open>hrana.ClientError\<close>, so an error is of exactly one of
  them; \<open>OtherClientError\<close> stands for every other subclass and for \<open>ClientError\<close>
  itself. A \<open>ResponseError\<close> carries its \<open>code\<close>, which may be undefined (\<open>None\<close>).
\<close>

datatype ClientError_class =
    ResponseError "string option"
  | ProtoError
  | ClosedError
  | WebSocketError
  | HttpServerError
  | ProtocolVersionError
  | OtherClientError

text \<open>
  What a \<open>throw\<close> can carry: a \<open>hrana.ClientError\<close> (class, message), a
  \<open>LibsqlError\<close> (message, code, cause) or any other value (a \<open>TypeError\<close>, a
  \<open>SyntaxError\<close>, ...), named by a string.
\<close>

datatype thrown =
    ClientError ClientError_class string
  | LibsqlError string string "thrown option"
  | OtherThrown string

fun isResponseError :: "ClientError_class \<Rightarrow> bool" where
  "isResponseError (ResponseError c) = True"
| "isResponseError _ = False"

fun response_code :: "ClientError_class \<Rightarrow> string option" where
  "response_code (ResponseError c) = c"
| "response_code _ = None"

text \<open>\<open>mapHranaError\<close>: the chain of \<open>instanceof\<close> tests, in the order of the source.\<close>

fun mapHranaError :: "thrown \<Rightarrow> thrown" where
  "mapHranaError (ClientError cls msg) =
     (let code =
        (if isResponseError cls \<and> response_code cls \<noteq> None then the (response_code cls)
         else if cls = ProtoError then ''HRANA_PROTO_ERROR''
         else if cls = ClosedError then ''HRANA_CLOSED_ERROR''
         else if cls = WebSocketError then ''HRANA_WEBSOCKET_ERROR''
         else if cls = HttpServerError then ''SERVER_ERROR''
         else if cls = ProtocolVersionError then ''PROTOCOL_VERSION_ERROR''
         else ''UNKNOWN'')
      in LibsqlError msg code (Some (ClientError cls msg)))"
| "mapHranaError e = e"

section \<open>Result sets\<close>

text \<open>
  \<open>hrana.RowsResult\<close> and the client's \<open>ResultSet\<close>. A column name that is \<open>null\<close> or
  \<open>undefined\<close> is \<open>None\<close>. The rows are kept abstract (\<open>'row\<close>), and so is the
  representation \<open>'rid\<close> in which hrana hands over the last inserted row id.
\<close>

record ('row, 'rid) RowsResult =
  columnNames :: "string option list"
  rows :: "'row list"
  affectedRowCount :: nat
  lastInsertRowid :: "'rid option"

record 'row ResultSet =
  columns :: "string list"
  rs_rows :: "'row list"
  rowsAffected :: nat
  rs_lastInsertRowid :: "int option"

text \<open>
  \<open>resultSetFromHrana\<close>. JavaScript's \<open>BigInt(v)\<close> is a parameter: it yields the integer
  that \<open>v\<close> denotes, or throws when \<open>v\<close> denotes none. \<open>c ?? ""\<close> is \<open>nullish\<close>.
\<close>

fun nullish :: "string option \<Rightarrow> string" where
  "nullish None = ''''"
| "nullish (Some c) = c"

definition resultSetFromHrana ::
    "('rid \<Rightarrow> thrown + int) \<Rightarrow> ('row, 'rid) RowsResult \<Rightarrow> thrown + 'row ResultSet" where
  "resultSetFromHrana BigInt hranaRows =
     (case lastInsertRowid hranaRows of
        None \<Rightarrow>
          Inr \<lparr>columns = map nullish (columnNames hranaRows),
               rs_rows = rows hranaRows,
               rowsAffected = affectedRowCount hranaRows,
               rs_lastInsertRowid = None\<rparr>
      | Some v \<Rightarrow>
          (case BigInt v of
             Inl e \<Rightarrow> Inl e
           | Inr n \<Rightarrow>
               Inr \<lparr>columns = map nullish (columnNames hranaRows),
                    rs_rows = rows hranaRows,
                    rowsAffected = affectedRowCount hranaRows,
                    rs_lastInsertRowid = Some n\<rparr>))"

section \<open>Statements\<close>

text \<open>
  \<open>InStatement\<close> is a string of SQL or an object with \<open>sql\<close> and \<open>args\<close>, the
  arguments an array or an object of named values (the values are kept abstract, \<open>'v\<close>).
\<close>

datatype 'v InArgs = ArrayArgs "'v list" | NamedArgs "(string \<times> 'v) list"

datatype 'v InStatement = SqlString string | SqlObject string "'v InArgs"

text \<open>
  What \<open>stmtToHrana\<close> and \<open>execute\<close> call and the sources do not hold, as parameters over
  an abstract type \<open>'h\<close> of hrana statements: the constructor \<open>new hrana.Stmt(sql)\<close>, the
  methods \<open>bindIndexes\<close> and \<open>bindName\<close> of \<open>hrana.Stmt\<close>, which encode the values they
  bind and throw for a value that has no encoding, and the abstract hook
  \<open>_applySqlCache\<close>. A method that changes the statement in place gives the statement
  as changed.
\<close>

record ('v, 'h) hrana_env =
  newStmt :: "string \<Rightarrow> 'h"
  bindIndexes :: "'v list \<Rightarrow> 'h \<Rightarrow> thrown + 'h"
  bindName :: "string \<Rightarrow> 'v \<Rightarrow> 'h \<Rightarrow> thrown + 'h"
  applySqlCache :: "'h \<Rightarrow> thrown + 'h"

text \<open>The loop over \<open>Object.entries(stmt.args)\<close>: it ends at the first \<open>bindName\<close> that throws.\<close>

fun bindNames :: "('v, 'h) hrana_env \<Rightarrow> (string \<times> 'v) list \<Rightarrow> 'h \<Rightarrow> thrown + 'h" where
  "bindNames env [] hranaStmt = Inr hranaStmt"
| "bindNames env ((key, v) # rest) hranaStmt =
     (case bindName env key v hranaStmt of
        Inl e \<Rightarrow> Inl e
      | Inr hranaStmt' \<Rightarrow> bindNames env rest hranaStmt')"

fun stmtToHrana :: "('v, 'h) hrana_env \<Rightarrow> 'v InStatement \<Rightarrow> thrown + 'h" where
  "stmtToHrana env (SqlString s) = Inr (newStmt env s)"
| "stmtToHrana env (SqlObject s (ArrayArgs vs)) = bindIndexes env vs (newStmt env s)"
| "stmtToHrana env (SqlObject s (NamedArgs kvs)) = bindNames env kvs (newStmt env s)"

section \<open>Batches and the answers of the stream\<close>

text \<open>
  A \<open>hrana.Batch\<close> is the list of its steps. A step is added when \<open>run\<close> or \<open>query\<close> is
  called on it, and is named from then on by its index in the batch, which is what
  \<open>BatchCond.ok(step)\<close> refers to.
\<close>

datatype BatchCond = CondOk nat | CondNot BatchCond

datatype 'h step_body = Run string | Query 'h

record 'h BatchStep =
  cond :: "BatchCond option"
  body :: "'h step_body"

type_synonym 'h Batch = "'h BatchStep list"

definition add_step ::
    "'h Batch \<Rightarrow> BatchCond option \<Rightarrow> 'h step_body \<Rightarrow> nat \<times> 'h Batch" where
  "add_step batch c b = (length batch, batch @ [\<lparr>cond = c, body = b\<rparr>])"

text \<open>
  What comes back for one request on the stream: the request as a whole failed, a batch
  was answered with one outcome per step, or a single statement was answered with its
  rows. A promise that has settled is \<open>Resolved\<close> with a value or \<open>Rejected\<close> with what
  was thrown; \<open>undefined\<close> is \<open>None\<close>.
\<close>

datatype ('row, 'rid) StepOutcome =
    StepOk "('row, 'rid) RowsResult"
  | StepError thrown
  | StepNotRun

datatype ('row, 'rid) response =
    RequestFailed thrown
  | BatchResult "('row, 'rid) StepOutcome list"
  | StmtResult "('row, 'rid) RowsResult"

datatype 'a settled = Resolved 'a | Rejected thrown

text \<open>
  Modelled from the spec: the promises of hrana's \<open>Batch.execute()\<close>, \<open>BatchStep.run()\<close>
  and \<open>BatchStep.query()\<close> (the hrana client is not part of the sources). The promise of
  \<open>execute\<close> rejects when the round trip fails; the promise of a step resolves to the
  step's result, rejects with the step's error, and resolves to \<open>undefined\<close> when the
  step was not run; when the round trip fails, every step's promise rejects with it.
\<close>

fun batch_execute_promise :: "('row, 'rid) response \<Rightarrow> unit settled" where
  "batch_execute_promise (RequestFailed e) = Rejected e"
| "batch_execute_promise _ = Resolved ()"

fun outcome_promise ::
    "('row, 'rid) StepOutcome \<Rightarrow> ('row, 'rid) RowsResult option settled" where
  "outcome_promise (StepOk r) = Resolved (Some r)"
| "outcome_promise (StepError e) = Rejected e"
| "outcome_promise StepNotRun = Resolved None"

fun step_promise ::
    "('row, 'rid) response \<Rightarrow> nat \<Rightarrow> ('row, 'rid) RowsResult option settled" where
  "step_promise (RequestFailed e) i = Rejected e"
| "step_promise (BatchResult os) i =
     (if i < length os then outcome_promise (os ! i) else Resolved None)"
| "step_promise (StmtResult r) i = Resolved None"

text \<open>
  Modelled from the spec: how the server evaluates a batch. Steps are taken in
  declaration order; a step runs when it has no condition or its condition holds of the
  outcomes so far; \<open>ok(step)\<close> holds when that step ran and succeeded. \<open>db\<close> is the
  database's answer to a statement that runs.
\<close>

fun is_StepOk :: "('row, 'rid) StepOutcome \<Rightarrow> bool" where
  "is_StepOk (StepOk r) = True"
| "is_StepOk _ = False"

fun eval_cond :: "('row, 'rid) StepOutcome list \<Rightarrow> BatchCond \<Rightarrow> bool" where
  "eval_cond os (CondOk i) = (i < length os \<and> is_StepOk (os ! i))"
| "eval_cond os (CondNot c) = (\<not> eval_cond os c)"

fun server_steps ::
    "('h step_body \<Rightarrow> thrown + ('row, 'rid) RowsResult) \<Rightarrow> 'h Batch \<Rightarrow>
     ('row, 'rid) StepOutcome list \<Rightarrow> ('row, 'rid) StepOutcome list" where
  "server_steps db [] os = os"
| "server_steps db (s # ss) os =
     server_steps db ss
       (os @ [if (case cond s of None \<Rightarrow> True | Some c \<Rightarrow> eval_cond os c)
              then (case db (body s) of Inl e \<Rightarrow> StepError e | Inr r \<Rightarrow> StepOk r)
              else StepNotRun])"

section \<open>The batch transaction runner\<close>

text \<open>
  The \<open>map\<close> over \<open>hranaStmts\<close>: each statement becomes a step conditioned on
  \<open>ok(lastStep)\<close>, and \<open>lastStep\<close> moves to it. The result is the final \<open>lastStep\<close>, the
  steps whose promises are \<open>stmtPromises\<close>, and the batch.
\<close>

fun stmt_steps :: "nat \<Rightarrow> 'h list \<Rightarrow> 'h Batch \<Rightarrow> nat \<times> nat list \<times> 'h Batch" where
  "stmt_steps lastStep [] batch = (lastStep, [], batch)"
| "stmt_steps lastStep (hranaStmt # rest) batch =
     (let (stmtStep, batch1) = add_step batch (Some (CondOk lastStep)) (Query hranaStmt);
          (lastStep', stmtPromises, batch2) = stmt_steps stmtStep rest batch1
      in (lastStep', stmtStep # stmtPromises, batch2))"

text \<open>
  The loop that awaits \<open>stmtPromises\<close> in order: a rejection is thrown on, an
  \<open>undefined\<close> result throws the \<open>SERVER_ERROR\<close>, a result is mapped and pushed.
\<close>

definition missing_result :: thrown where
  "missing_result =
     LibsqlError ''Server did not return a result for statement in a batch''
       ''SERVER_ERROR'' None"

fun await_stmts ::
    "('rid \<Rightarrow> thrown + int) \<Rightarrow> ('row, 'rid) RowsResult option settled list \<Rightarrow>
     'row ResultSet list \<Rightarrow> thrown + 'row ResultSet list" where
  "await_stmts BigInt [] resultSets = Inr resultSets"
| "await_stmts BigInt (Rejected e # ps) resultSets = Inl e"
| "await_stmts BigInt (Resolved None # ps) resultSets = Inl missing_result"
| "await_stmts BigInt (Resolved (Some hranaRows) # ps) resultSets =
     (case resultSetFromHrana BigInt hranaRows of
        Inl e \<Rightarrow> Inl e
      | Inr rs \<Rightarrow> await_stmts BigInt ps (resultSets @ [rs]))"

text \<open>\<open>promise.catch(_ => undefined)\<close>.\<close>

fun catch_undefined :: "'a option settled \<Rightarrow> 'a option settled" where
  "catch_undefined (Rejected e) = Resolved None"
| "catch_undefined p = p"

text \<open>
  \<open>executeHranaBatch\<close>, given the batch, the statements and the answer \<open>resp\<close> that the
  stream gives to the submission. It leaves behind the batches that \<open>batch.execute()\<close>
  submitted, what the function returns or throws, and the promise
  \<open>rollbackStep.run("ROLLBACK").catch(_ => undefined)\<close>, which nothing awaits: were it
  rejected, the rejection would be unhandled.
\<close>

record ('h, 'row, 'rid) batch_run =
  submitted :: "'h Batch list"
  returned :: "thrown + 'row ResultSet list"
  rollback_caught :: "('row, 'rid) RowsResult option settled"

definition executeHranaBatch ::
    "('rid \<Rightarrow> thrown + int) \<Rightarrow> 'h Batch \<Rightarrow> 'h list \<Rightarrow> ('row, 'rid) response \<Rightarrow>
     ('h, 'row, 'rid) batch_run" where
  "executeHranaBatch BigInt batch hranaStmts resp =
     (let (beginStep, batch1) = add_step batch None (Run ''BEGIN'');
          beginPromise = step_promise resp beginStep;
          (lastStep, stmtSteps, batch2) = stmt_steps beginStep hranaStmts batch1;
          stmtPromises = map (step_promise resp) stmtSteps;
          (commitStep, batch3) = add_step batch2 (Some (CondOk lastStep)) (Run ''COMMIT'');
          commitPromise = step_promise resp commitStep;
          (rollbackStep, batch4) =
             add_step batch3 (Some (CondNot (CondOk commitStep))) (Run ''ROLLBACK'');
          rollbackPromise = catch_undefined (step_promise resp rollbackStep)
      in \<lparr>submitted = [batch4],
          returned =
            (case batch_execute_promise resp of
               Rejected e \<Rightarrow> Inl e
             | Resolved _ \<Rightarrow>
                 (case beginPromise of
                    Rejected e \<Rightarrow> Inl e
                  | Resolved _ \<Rightarrow>
                      (case await_stmts BigInt stmtPromises [] of
                         Inl e \<Rightarrow> Inl e
                       | Inr resultSets \<Rightarrow>
                           (case commitPromise of
                              Rejected e \<Rightarrow> Inl e
                            | Resolved _ \<Rightarrow> Inr resultSets)))),
          rollback_caught = rollbackPromise\<rparr>)"

section \<open>The transaction coordinator\<close>

text \<open>
  What the coordinator issues on its stream, in order: a batch (\<open>batch.execute()\<close>), a
  statement with a result (\<open>stream.query\<close>), or plain SQL (\<open>stream.run\<close>). A request is
  named by its position in that order.
\<close>

datatype 'h request = BatchRequest "'h Batch" | QueryRequest 'h | RunRequest string

text \<open>
  An \<open>async\<close> call is suspended at one of the \<open>await\<close>s of its method, or done:
  \<^item> \<open>ExecuteAwaitBegin b rowsStep\<close>: \<open>execute\<close> at \<open>await this.#started\<close> in the branch
    that sent the \<open>BEGIN\<close> batch as request \<open>b\<close>; \<open>rowsPromise\<close> is the promise of step
    \<open>rowsStep\<close> of that batch;
  \<^item> \<open>ExecuteAwaitStarted hranaStmt\<close>: \<open>execute\<close> at \<open>await this.#started\<close> in the other
    branch;
  \<^item> \<open>ExecuteAwaitRows n i\<close>: \<open>execute\<close> at \<open>await rowsPromise\<close>, the promise of step \<open>i\<close>
    of the batch \<open>n\<close> (\<open>Some i\<close>) or of the \<open>stream.query\<close> that is request \<open>n\<close> (\<open>None\<close>);
  \<^item> \<open>CommitAwaitStarted\<close>: \<open>commit\<close> at \<open>await this.#started\<close>;
  \<^item> \<open>CommitAwaitRun n\<close>, \<open>RollbackAwaitRun n\<close>: at \<open>await promise\<close>, the promise of the
    \<open>stream.run\<close> that is request \<open>n\<close>;
  \<^item> \<open>ExecuteDone\<close>, \<open>CommitDone\<close>, \<open>RollbackDone\<close>: the call's own promise has settled.
\<close>

datatype ('h, 'row) task =
    ExecuteAwaitBegin nat nat
  | ExecuteAwaitStarted 'h
  | ExecuteAwaitRows nat "nat option"
  | ExecuteDone "'row ResultSet settled"
  | CommitAwaitStarted
  | CommitAwaitRun nat
  | CommitDone "unit settled"
  | RollbackAwaitRun nat
  | RollbackDone "unit settled"

text \<open>
  The transaction with its stream: \<open>started\<close> is \<open>#started\<close>, \<open>None\<close> for \<open>undefined\<close> and
  \<open>Some (b, beginStep)\<close> for the promise
  \<open>batch.execute().then(() => beginPromise).then(() => undefined)\<close> of the batch that is
  request \<open>b\<close>; \<open>stream_closed\<close> is \<open>stream.closed\<close>; \<open>tx_closed\<close> records that \<open>close()\<close>
  ran; \<open>sent\<close> are the requests that the coordinator has issued on the stream, in order
  (what the stream and the server make of a request is its answer); \<open>answers\<close> are the
  answers that have arrived, by request; \<open>calls\<close> are the calls made on the
  transaction, in order.
\<close>

record ('h, 'row, 'rid) transaction =
  started :: "(nat \<times> nat) option"
  stream_closed :: bool
  tx_closed :: bool
  sent :: "'h request list"
  answers :: "(nat \<times> ('row, 'rid) response) list"
  calls :: "('h, 'row) task list"

text \<open>The constructor: \<open>#started\<close> is \<open>undefined\<close>; the stream is fresh.\<close>

definition new_transaction :: "('h, 'row, 'rid) transaction" where
  "new_transaction =
     \<lparr>started = None, stream_closed = False, tx_closed = False, sent = [], answers = [],
      calls = []\<rparr>"

text \<open>
  Modelled from the spec: the abstract hooks \<open>close()\<close> and \<open>closed\<close>, whose
  implementations are in the transport-specific subclasses, and \<open>stream.close()\<close> of the
  hrana client. Closing the transaction closes its stream; both are safe to repeat.
\<close>

definition close :: "('h, 'row, 'rid) transaction \<Rightarrow> ('h, 'row, 'rid) transaction" where
  "close tx = tx\<lparr>tx_closed := True, stream_closed := True\<rparr>"

definition closed :: "('h, 'row, 'rid) transaction \<Rightarrow> bool" where
  "closed tx = tx_closed tx"

definition stream_close :: "('h, 'row, 'rid) transaction \<Rightarrow> ('h, 'row, 'rid) transaction" where
  "stream_close tx = tx\<lparr>stream_closed := True\<rparr>"

text \<open>Issuing a request on the stream gives its number.\<close>

definition stream_send ::
    "'h request \<Rightarrow> ('h, 'row, 'rid) transaction \<Rightarrow> nat \<times> ('h, 'row, 'rid) transaction" where
  "stream_send r tx = (length (sent tx), tx\<lparr>sent := sent tx @ [r]\<rparr>)"

definition add_call ::
    "('h, 'row) task \<Rightarrow> ('h, 'row, 'rid) transaction \<Rightarrow> ('h, 'row, 'rid) transaction" where
  "add_call t tx = tx\<lparr>calls := calls tx @ [t]\<rparr>"

definition answer ::
    "('h, 'row, 'rid) transaction \<Rightarrow> nat \<Rightarrow> ('row, 'rid) response option" where
  "answer tx n = map_of (answers tx) n"

text \<open>
  Modelled from the spec: the promise of \<open>stream.query\<close> and \<open>stream.run\<close> resolves to
  the statement's result or rejects with its failure (the third equation is never
  reached: \<open>respond\<close> below accepts only an answer of the request's kind).
\<close>

fun stmt_promise :: "('row, 'rid) response \<Rightarrow> ('row, 'rid) RowsResult option settled" where
  "stmt_promise (RequestFailed e) = Rejected e"
| "stmt_promise (StmtResult r) = Resolved (Some r)"
| "stmt_promise (BatchResult os) = Resolved None"

fun answers_request :: "'h request \<Rightarrow> ('row, 'rid) response \<Rightarrow> bool" where
  "answers_request r (RequestFailed e) = True"
| "answers_request (BatchRequest b) (BatchResult os) = True"
| "answers_request (QueryRequest q) (StmtResult r) = True"
| "answers_request (RunRequest q) (StmtResult r) = True"
| "answers_request r a = False"

text \<open>
  \<open>batch.execute().then(() => beginPromise).then(() => undefined)\<close>: resolved only if
  the batch and the \<open>BEGIN\<close> step in it are both successful.
\<close>

definition then_begin :: "('row, 'rid) response \<Rightarrow> nat \<Rightarrow> unit settled" where
  "then_begin resp beginStep =
     (case batch_execute_promise resp of
        Rejected e \<Rightarrow> Rejected e
      | Resolved u \<Rightarrow>
          (case step_promise resp beginStep of
             Rejected e \<Rightarrow> Rejected e
           | Resolved r \<Rightarrow> Resolved ()))"

text \<open>The state of a promise: \<open>None\<close> while it is pending.\<close>

definition started_state :: "('h, 'row, 'rid) transaction \<Rightarrow> unit settled option" where
  "started_state tx =
     (case started tx of
        None \<Rightarrow> None
      | Some (b, beginStep) \<Rightarrow> map_option (\<lambda>resp. then_begin resp beginStep) (answer tx b))"

definition rows_promise ::
    "('h, 'row, 'rid) transaction \<Rightarrow> nat \<Rightarrow> nat option \<Rightarrow>
     ('row, 'rid) RowsResult option settled option" where
  "rows_promise tx n i =
     (case i of
        Some rowsStep \<Rightarrow> map_option (\<lambda>resp. step_promise resp rowsStep) (answer tx n)
      | None \<Rightarrow> map_option stmt_promise (answer tx n))"

definition transaction_closed_error :: "string \<Rightarrow> thrown" where
  "transaction_closed_error msg = LibsqlError msg ''TRANSACTION_CLOSED'' None"

text \<open>
  \<open>execute\<close>, from the call to its first \<open>await\<close>, or to the \<open>throw\<close> before the \<open>try\<close>,
  or to a throw of \<open>stmtToHrana\<close> or \<open>_applySqlCache\<close> inside the \<open>try\<close>, which the
  \<open>catch\<close> block maps.
\<close>

definition execute ::
    "('v, 'h) hrana_env \<Rightarrow> 'v InStatement \<Rightarrow> ('h, 'row, 'rid) transaction \<Rightarrow>
     ('h, 'row, 'rid) transaction" where
  "execute env stmt tx =
     (if stream_closed tx then
        add_call
          (ExecuteDone (Rejected (transaction_closed_error
             ''Cannot execute a statement because the transaction is closed''))) tx
      else
        (case stmtToHrana env stmt of
           Inl e \<Rightarrow> add_call (ExecuteDone (Rejected (mapHranaError e))) tx
         | Inr converted \<Rightarrow>
             (case applySqlCache env converted of
                Inl e \<Rightarrow> add_call (ExecuteDone (Rejected (mapHranaError e))) tx
              | Inr hranaStmt \<Rightarrow>
                  if started tx = None then
                    (let batch = [];
                         (beginStep, batch1) = add_step batch None (Run ''BEGIN'');
                         (rowsStep, batch2) =
                            add_step batch1 (Some (CondOk beginStep)) (Query hranaStmt);
                         (b, tx1) = stream_send (BatchRequest batch2) tx;
                         tx2 = tx1\<lparr>started := Some (b, beginStep)\<rparr>
                     in add_call (ExecuteAwaitBegin b rowsStep) tx2)
                  else add_call (ExecuteAwaitStarted hranaStmt) tx)))"

text \<open>
  \<open>rollback\<close> and \<open>commit\<close>, from the call to the first \<open>await\<close> or to the end; the
  \<open>finally\<close> block runs \<open>close\<close> on every way out, and the \<open>catch\<close> block maps what was
  thrown.
\<close>

definition rollback :: "('h, 'row, 'rid) transaction \<Rightarrow> ('h, 'row, 'rid) transaction" where
  "rollback tx =
     (if stream_closed tx then add_call (RollbackDone (Resolved ())) (close tx)
      else if started tx \<noteq> None then
        (let (n, tx1) = stream_send (RunRequest ''ROLLBACK'') tx;
             tx2 = stream_close tx1
         in add_call (RollbackAwaitRun n) tx2)
      else add_call (RollbackDone (Resolved ())) (close tx))"

definition commit :: "('h, 'row, 'rid) transaction \<Rightarrow> ('h, 'row, 'rid) transaction" where
  "commit tx =
     (if stream_closed tx then
        add_call
          (CommitDone (Rejected (mapHranaError (transaction_closed_error
             ''Cannot commit the transaction because it is already closed'')))) (close tx)
      else if started tx \<noteq> None then add_call CommitAwaitStarted tx
      else add_call (CommitDone (Resolved ())) (close tx))"

text \<open>
  A suspended call goes on once the promise it awaits has settled, up to its next
  \<open>await\<close> or to its end; while the promise is pending, and when the call is done,
  nothing happens. Reading a property of \<open>undefined\<close> throws a \<open>TypeError\<close>.
\<close>

fun continue ::
    "('rid \<Rightarrow> thrown + int) \<Rightarrow> ('h, 'row) task \<Rightarrow> ('h, 'row, 'rid) transaction \<Rightarrow>
     ('h, 'row) task \<times> ('h, 'row, 'rid) transaction" where
  "continue BigInt (ExecuteAwaitBegin b rowsStep) tx =
     (case started_state tx of
        None \<Rightarrow> (ExecuteAwaitBegin b rowsStep, tx)
      | Some (Rejected e) \<Rightarrow> (ExecuteDone (Rejected (mapHranaError e)), close tx)
      | Some (Resolved u) \<Rightarrow> (ExecuteAwaitRows b (Some rowsStep), tx))"
| "continue BigInt (ExecuteAwaitStarted hranaStmt) tx =
     (case started_state tx of
        None \<Rightarrow> (ExecuteAwaitStarted hranaStmt, tx)
      | Some (Rejected e) \<Rightarrow> (ExecuteDone (Rejected (mapHranaError e)), tx)
      | Some (Resolved u) \<Rightarrow>
          (let (n, tx1) = stream_send (QueryRequest hranaStmt) tx
           in (ExecuteAwaitRows n None, tx1)))"
| "continue BigInt (ExecuteAwaitRows n i) tx =
     (case rows_promise tx n i of
        None \<Rightarrow> (ExecuteAwaitRows n i, tx)
      | Some (Rejected e) \<Rightarrow> (ExecuteDone (Rejected (mapHranaError e)), tx)
      | Some (Resolved None) \<Rightarrow>
          (ExecuteDone (Rejected (mapHranaError (OtherThrown ''TypeError''))), tx)
      | Some (Resolved (Some hranaRows)) \<Rightarrow>
          (case resultSetFromHrana BigInt hranaRows of
             Inl e \<Rightarrow> (ExecuteDone (Rejected (mapHranaError e)), tx)
           | Inr resultSet \<Rightarrow> (ExecuteDone (Resolved resultSet), tx)))"
| "continue BigInt CommitAwaitStarted tx =
     (case started_state tx of
        None \<Rightarrow> (CommitAwaitStarted, tx)
      | Some (Rejected e) \<Rightarrow> (CommitDone (Rejected (mapHranaError e)), close tx)
      | Some (Resolved u) \<Rightarrow>
          (let (n, tx1) = stream_send (RunRequest ''COMMIT'') tx;
               tx2 = stream_close tx1
           in (CommitAwaitRun n, tx2)))"
| "continue BigInt (CommitAwaitRun n) tx =
     (case map_option stmt_promise (answer tx n) of
        None \<Rightarrow> (CommitAwaitRun n, tx)
      | Some (Rejected e) \<Rightarrow>
          (CommitDone (Rejected (mapHranaError (mapHranaError e))), close tx)
      | Some (Resolved r) \<Rightarrow> (CommitDone (Resolved ()), close tx))"
| "continue BigInt (RollbackAwaitRun n) tx =
     (case map_option stmt_promise (answer tx n) of
        None \<Rightarrow> (RollbackAwaitRun n, tx)
      | Some (Rejected e) \<Rightarrow>
          (RollbackDone (Rejected (mapHranaError (mapHranaError e))), close tx)
      | Some (Resolved r) \<Rightarrow> (RollbackDone (Resolved ()), close tx))"
| "continue BigInt (ExecuteDone r) tx = (ExecuteDone r, tx)"
| "continue BigInt (CommitDone r) tx = (CommitDone r, tx)"
| "continue BigInt (RollbackDone r) tx = (RollbackDone r, tx)"

definition resume ::
    "('rid \<Rightarrow> thrown + int) \<Rightarrow> nat \<Rightarrow> ('h, 'row, 'rid) transaction \<Rightarrow>
     ('h, 'row, 'rid) transaction" where
  "resume BigInt k tx =
     (if k < length (calls tx) then
        (let (t, tx1) = continue BigInt (calls tx ! k) tx
         in tx1\<lparr>calls := (calls tx1)[k := t]\<rparr>)
      else tx)"

text \<open>
  The answer to request \<open>n\<close> arrives: once per request, and of the request's kind.
\<close>

definition respond ::
    "nat \<Rightarrow> ('row, 'rid) response \<Rightarrow> ('h, 'row, 'rid) transaction \<Rightarrow>
     ('h, 'row, 'rid) transaction" where
  "respond n a tx =
     (if n < length (sent tx) \<and> answer tx n = None \<and> answers_request (sent tx ! n) a
      then tx\<lparr>answers := (n, a) # answers tx\<rparr>
      else tx)"

text \<open>
  What can happen to a transaction: a caller calls one of its methods, an answer
  arrives, or a suspended call goes on. A run is any sequence of these, so every
  interleaving of concurrent callers is a run.
\<close>

datatype ('v, 'row, 'rid) event =
    Execute "'v InStatement"
  | Commit
  | Rollback
  | Close
  | Respond nat "('row, 'rid) response"
  | Resume nat

fun step ::
    "('v, 'h) hrana_env \<Rightarrow> ('rid \<Rightarrow> thrown + int) \<Rightarrow> ('v, 'row, 'rid) event \<Rightarrow>
     ('h, 'row, 'rid) transaction \<Rightarrow> ('h, 'row, 'rid) transaction" where
  "step env BigInt (Execute stmt) tx = execute env stmt tx"
| "step env BigInt Commit tx = commit tx"
| "step env BigInt Rollback tx = rollback tx"
| "step env BigInt Close tx = close tx"
| "step env BigInt (Respond n a) tx = respond n a tx"
| "step env BigInt (Resume k) tx = resume BigInt k tx"

definition run ::
    "('v, 'h) hrana_env \<Rightarrow> ('rid \<Rightarrow> thrown + int) \<Rightarrow> ('v, 'row, 'rid) event list \<Rightarrow>
     ('h, 'row, 'rid) transaction \<Rightarrow> ('h, 'row, 'rid) transaction" where
  "run env BigInt evs tx = foldl (\<lambda>t ev. step env BigInt ev t) tx evs"

text \<open>
  The \<open>BEGIN\<close> statements that the coordinator has issued on the stream: the steps
  \<open>run("BEGIN")\<close> of the batches sent, and \<open>stream.run("BEGIN")\<close>.
\<close>

fun begins_in :: "'h request \<Rightarrow> nat" where
  "begins_in (BatchRequest batch) = length (filter (\<lambda>s. body s = Run ''BEGIN'') batch)"
| "begins_in (RunRequest q) = (if q = ''BEGIN'' then 1 else 0)"
| "begins_in (QueryRequest q) = 0"

definition begin_count :: "('h, 'row, 'rid) transaction \<Rightarrow> nat" where
  "begin_count tx = sum_list (map begins_in (sent tx))"


section \<open>Invariants of the runs\<close>

text \<open>
  As long as \<open>#started\<close> is \<open>undefined\<close> no \<open>BEGIN\<close> has been issued, and from then on
  exactly one has.
\<close>

definition begin_inv :: "('h, 'row, 'rid) transaction \<Rightarrow> bool" where
  "begin_inv tx = (begin_count tx = (if started tx = None then 0 else 1))"








section \<open>Inputs of the concrete runs\<close>

text \<open>
  A hrana client for the concrete runs. A statement is its SQL with the encoded values
  that were bound; a value is a number, encoded as itself, or \<open>Infinite\<close>, which has no
  encoding: binding it throws a \<open>RangeError\<close>. The cache of SQL texts leaves a statement
  as it is.
\<close>

datatype demo_value = Num int | Infinite

record Stmt =
  sql :: string
  args :: "int list"
  namedArgs :: "(string \<times> int) list"

definition demo_newStmt :: "string \<Rightarrow> Stmt" where
  "demo_newStmt s = \<lparr>sql = s, args = [], namedArgs = []\<rparr>"

fun demo_encode :: "demo_value \<Rightarrow> thrown + int" where
  "demo_encode (Num n) = Inr n"
| "demo_encode Infinite = Inl (OtherThrown ''RangeError'')"

fun demo_encode_all :: "demo_value list \<Rightarrow> thrown + int list" where
  "demo_encode_all [] = Inr []"
| "demo_encode_all (v # vs) =
     (case demo_encode v of
        Inl e \<Rightarrow> Inl e
      | Inr n \<Rightarrow> (case demo_encode_all vs of Inl e \<Rightarrow> Inl e | Inr ns \<Rightarrow> Inr (n # ns)))"

definition demo_bindIndexes :: "demo_value list \<Rightarrow> Stmt \<Rightarrow> thrown + Stmt" where
  "demo_bindIndexes vs hranaStmt =
     (case demo_encode_all vs of
        Inl e \<Rightarrow> Inl e
      | Inr ns \<Rightarrow> Inr (hranaStmt\<lparr>args := ns\<rparr>))"

definition demo_bindName :: "string \<Rightarrow> demo_value \<Rightarrow> Stmt \<Rightarrow> thrown + Stmt" where
  "demo_bindName k v hranaStmt =
     (case demo_encode v of
        Inl e \<Rightarrow> Inl e
      | Inr n \<Rightarrow> Inr (hranaStmt\<lparr>namedArgs := namedArgs hranaStmt @ [(k, n)]\<rparr>))"

definition demo_env :: "(demo_value, Stmt) hrana_env" where
  "demo_env =
     \<lparr>newStmt = demo_newStmt, bindIndexes = demo_bindIndexes, bindName = demo_bindName,
      applySqlCache = (\<lambda>hranaStmt. Inr hranaStmt)\<rparr>"

definition demo_rows :: "string \<Rightarrow> (nat list, int) RowsResult" where
  "demo_rows c =
     \<lparr>columnNames = [Some c], rows = [[1]], affectedRowCount = 0, lastInsertRowid = None\<rparr>"

definition demo_set :: "string \<Rightarrow> nat list ResultSet" where
  "demo_set c = \<lparr>columns = [c], rs_rows = [[1]], rowsAffected = 0, rs_lastInsertRowid = None\<rparr>"

definition demo_error :: thrown where
  "demo_error = ClientError (ResponseError (Some ''SQLITE_CONSTRAINT'')) ''constraint failed''"

text \<open>A \<open>BigInt\<close> that throws for the row id \<open>0\<close>, as the builtin does for a malformed one.\<close>

definition demo_BigInt :: "int \<Rightarrow> thrown + int" where
  "demo_BigInt v = (if v = 0 then Inl (OtherThrown ''SyntaxError'') else Inr v)"

definition demo_db :: "Stmt step_body \<Rightarrow> thrown + (nat list, int) RowsResult" where
  "demo_db b =
     (case b of
        Run s \<Rightarrow> Inr (demo_rows s)
      | Query q \<Rightarrow> if sql q = ''INSERT bad'' then Inl demo_error else Inr (demo_rows (sql q)))"

text \<open>
  Two callers have called \<open>execute\<close> on a new transaction, and the answer to the batch
  has arrived: the \<open>BEGIN\<close> step failed (\<open>demo_begin_failed\<close>), both steps succeeded
  (\<open>demo_begun\<close>), or \<open>BEGIN\<close> succeeded and the statement failed (\<open>demo_stmt_failed\<close>).
  In \<open>demo_submit_failed\<close> the submission of the batch failed as a whole, in
  \<open>demo_pending\<close> the answer has not arrived, and in \<open>demo_committing\<close> a \<open>commit\<close>
  after \<open>demo_begun\<close> has issued its \<open>COMMIT\<close> and the answer to it has arrived.
\<close>

definition demo_begin_failed :: "(Stmt, nat list, int) transaction" where
  "demo_begin_failed =
     run demo_env (\<lambda>v. Inr v)
       [Execute (SqlString ''SELECT 1''), Execute (SqlString ''SELECT 2''),
        Respond 0 (BatchResult [StepError demo_error, StepNotRun])]
       new_transaction"

definition demo_begun :: "(Stmt, nat list, int) transaction" where
  "demo_begun =
     run demo_env (\<lambda>v. Inr v)
       [Execute (SqlString ''SELECT 1''), Execute (SqlString ''SELECT 2''),
        Respond 0 (BatchResult [StepOk (demo_rows ''BEGIN''), StepOk (demo_rows ''1'')])]
       new_transaction"

definition demo_stmt_failed :: "(Stmt, nat list, int) transaction" where
  "demo_stmt_failed =
     run demo_env (\<lambda>v. Inr v)
       [Execute (SqlString ''INSERT bad''), Execute (SqlString ''SELECT 2''),
        Respond 0 (BatchResult [StepOk (demo_rows ''BEGIN''), StepError demo_error])]
       new_transaction"

definition demo_submit_failed :: "(Stmt, nat list, int) transaction" where
  "demo_submit_failed =
     run demo_env (\<lambda>v. Inr v)
       [Execute (SqlString ''SELECT 1''), Respond 0 (RequestFailed demo_error)]
       new_transaction"

definition demo_pending :: "(Stmt, nat list, int) transaction" where
  "demo_pending =
     run demo_env (\<lambda>v. Inr v)
       [Execute (SqlString ''SELECT 1''), Execute (SqlString ''SELECT 2'')]
       new_transaction"

definition demo_committing :: "(Stmt, nat list, int) transaction" where
  "demo_committing =
     run demo_env (\<lambda>v. Inr v)
       [Commit, Resume 2, Respond 1 (StmtResult (demo_rows ''COMMIT''))]
       demo_begun"

section \<open>Properties of the mappings\<close>

text \<open>
  C5: \<open>mapHranaError\<close> turns a \<open>hrana.ClientError\<close> into a \<open>LibsqlError\<close> with the same
  message, the original error as cause, and the code of its class: the error's own code
  for a \<open>ResponseError\<close> whose code is defined, \<open>HRANA_PROTO_ERROR\<close>,
  \<open>HRANA_CLOSED_ERROR\<close>, \<open>HRANA_WEBSOCKET_ERROR\<close>, \<open>SERVER_ERROR\<close> and
  \<open>PROTOCOL_VERSION_ERROR\<close> for the five named classes, and \<open>UNKNOWN\<close> for every other
  \<open>ClientError\<close> (a \<open>ResponseError\<close> without a code included). A value that is not a
  \<open>ClientError\<close> comes back unchanged.
\<close>

theorem mapHranaError_classifies:
  "mapHranaError (ClientError (ResponseError (Some c)) m) =
     LibsqlError m c (Some (ClientError (ResponseError (Some c)) m))
   \<and> mapHranaError (ClientError ProtoError m) =
     LibsqlError m ''HRANA_PROTO_ERROR'' (Some (ClientError ProtoError m))
   \<and> mapHranaError (ClientError ClosedError m) =
     LibsqlError m ''HRANA_CLOSED_ERROR'' (Some (ClientError ClosedError m))
   \<and> mapHranaError (ClientError WebSocketError m) =
     LibsqlError m ''HRANA_WEBSOCKET_ERROR'' (Some (ClientError WebSocketError m))
   \<and> mapHranaError (ClientError HttpServerError m) =
     LibsqlError m ''SERVER_ERROR'' (Some (ClientError HttpServerError m))
   \<and> mapHranaError (ClientError ProtocolVersionError m) =
     LibsqlError m ''PROTOCOL_VERSION_ERROR'' (Some (ClientError ProtocolVersionError m))
   \<and> mapHranaError (ClientError OtherClientError m) =
     LibsqlError m ''UNKNOWN'' (Some (ClientError OtherClientError m))
   \<and> mapHranaError (ClientError (ResponseError None) m) =
     LibsqlError m ''UNKNOWN'' (Some (ClientError (ResponseError None) m))
   \<and> mapHranaError (LibsqlError m' c' cause) = LibsqlError m' c' cause
   \<and> mapHranaError (OtherThrown v) = OtherThrown v"
  by simp

theorem mapHranaError_classifies_witness:
  "mapHranaError (ClientError (ResponseError (Some ''SQLITE_BUSY'')) ''busy'') =
     LibsqlError ''busy'' ''SQLITE_BUSY''
       (Some (ClientError (ResponseError (Some ''SQLITE_BUSY'')) ''busy''))
   \<and> mapHranaError (ClientError ClosedError ''closed'') =
     LibsqlError ''closed'' ''HRANA_CLOSED_ERROR'' (Some (ClientError ClosedError ''closed''))
   \<and> mapHranaError (OtherThrown ''TypeError'') = OtherThrown ''TypeError''"
  using mapHranaError_classifies [of "''SQLITE_BUSY''" "''busy''" "''x''" "''y''" None "''TypeError''"]
    mapHranaError_classifies [of "''c''" "''closed''" "''x''" "''y''" None "''TypeError''"]
  by simp

text \<open>
  C6: for a rows result whose row id, when there is one, converts to an integer,
  \<open>resultSetFromHrana\<close> returns a result set with the column names (the empty string
  for an absent one), the rows and the affected-row count of the input, and with
  \<open>lastInsertRowid\<close> the \<open>BigInt\<close> of the input's row id when the input has one and
  absent when it has none (not zero).
\<close>

theorem resultSetFromHrana_fields:
  "(lastInsertRowid r = None \<longrightarrow>
      resultSetFromHrana BigInt r =
        Inr \<lparr>columns = map (\<lambda>c. case c of None \<Rightarrow> '''' | Some s \<Rightarrow> s) (columnNames r),
             rs_rows = rows r, rowsAffected = affectedRowCount r,
             rs_lastInsertRowid = None\<rparr>)
   \<and> (lastInsertRowid r = Some v \<and> BigInt v = Inr n \<longrightarrow>
      resultSetFromHrana BigInt r =
        Inr \<lparr>columns = map (\<lambda>c. case c of None \<Rightarrow> '''' | Some s \<Rightarrow> s) (columnNames r),
             rs_rows = rows r, rowsAffected = affectedRowCount r,
             rs_lastInsertRowid = Some n\<rparr>)"
proof -
  have eq: "nullish = (\<lambda>c. case c of None \<Rightarrow> '''' | Some s \<Rightarrow> s)"
    by (rule ext) (simp split: option.split)
  show ?thesis
    by (simp add: resultSetFromHrana_def eq)
qed

theorem resultSetFromHrana_fields_witness:
  "resultSetFromHrana (\<lambda>v::int. Inr v)
      \<lparr>columnNames = [Some ''id'', None], rows = [[1::nat, 2]], affectedRowCount = 0,
       lastInsertRowid = None\<rparr>
    = Inr \<lparr>columns = [''id'', ''''], rs_rows = [[1, 2]], rowsAffected = 0,
           rs_lastInsertRowid = None\<rparr>
   \<and> resultSetFromHrana (\<lambda>v::int. Inr v)
      \<lparr>columnNames = [None], rows = [[3::nat]], affectedRowCount = 1,
       lastInsertRowid = Some 7\<rparr>
    = Inr \<lparr>columns = [''''], rs_rows = [[3]], rowsAffected = 1,
           rs_lastInsertRowid = Some 7\<rparr>"
  using resultSetFromHrana_fields
      [of "\<lparr>columnNames = [Some ''id'', None], rows = [[1::nat, 2]], affectedRowCount = 0,
            lastInsertRowid = None\<rparr>" "\<lambda>v::int. Inr v" 0 0]
    resultSetFromHrana_fields
      [of "\<lparr>columnNames = [None], rows = [[3::nat]], affectedRowCount = 1,
            lastInsertRowid = Some (7::int)\<rparr>" "\<lambda>v::int. Inr v" 7 7]
  by simp

section \<open>Properties of the batch transaction runner\<close>

lemma stmt_steps_eq:
  "length batch = Suc lastStep \<Longrightarrow>
   stmt_steps lastStep stmts batch =
     (lastStep + length stmts,
      map (\<lambda>(i, s). Suc i) (enumerate lastStep stmts),
      batch @ map (\<lambda>(i, s). \<lparr>cond = Some (CondOk i), body = Query s\<rparr>)
                (enumerate lastStep stmts))"
proof (induction stmts arbitrary: lastStep batch)
  case Nil
  then show ?case by simp
next
  case (Cons s ss)
  have len: "length (batch @ [\<lparr>cond = Some (CondOk lastStep), body = Query s\<rparr>]) = Suc (Suc lastStep)"
    using Cons.prems by simp
  show ?case
    using Cons.prems by (simp add: add_step_def Cons.IH [OF len])
qed

lemma stmt_promises_eq:
  "map (step_promise resp \<circ> (\<lambda>(i, s). Suc i)) (enumerate 0 stmts) =
   map (\<lambda>j. step_promise resp (Suc j)) [0 ..< length stmts]"
proof -
  have "map (step_promise resp \<circ> (\<lambda>(i, s). Suc i)) (enumerate 0 stmts) =
        map (\<lambda>j. step_promise resp (Suc j)) (map fst (enumerate 0 stmts))"
    by (simp add: case_prod_unfold comp_def del: map_fst_enumerate)
  also have "map fst (enumerate 0 stmts) = [0 ..< length stmts]"
    by simp
  finally show ?thesis .
qed

lemma await_stmts_length:
  "await_stmts BigInt ps acc = Inr rs \<Longrightarrow> length rs = length acc + length ps"
  by (induction BigInt ps acc rule: await_stmts.induct) (auto split: sum.splits)

lemma await_stmts_missing:
  "Resolved None \<in> set ps \<Longrightarrow> \<exists>e. await_stmts BigInt ps acc = Inl e"
  by (induction BigInt ps acc rule: await_stmts.induct) (auto split: sum.splits)

lemma await_stmts_all_ok:
  "map (resultSetFromHrana BigInt) rs = map Inr sets \<Longrightarrow>
   await_stmts BigInt (map (\<lambda>r. Resolved (Some r)) rs) acc = Inr (acc @ sets)"
  by (induction rs arbitrary: acc sets) auto

lemma await_stmts_skip:
  "i \<le> length ps \<Longrightarrow>
   \<forall>j<i. \<exists>r s. ps ! j = Resolved (Some r) \<and> resultSetFromHrana BigInt r = Inr s \<Longrightarrow>
   \<exists>sets. await_stmts BigInt ps acc = await_stmts BigInt (drop i ps) (acc @ sets)"
proof (induction i arbitrary: ps acc)
  case 0
  have "await_stmts BigInt ps acc = await_stmts BigInt (drop 0 ps) (acc @ [])"
    by simp
  then show ?case by blast
next
  case (Suc i)
  from Suc.prems(1) obtain p ps' where ps: "ps = p # ps'"
    by (cases ps) auto
  from Suc.prems(2) obtain r s where
    p: "ps ! 0 = Resolved (Some r)" and rs: "resultSetFromHrana BigInt r = Inr s"
    by blast
  have later: "\<forall>j<i. \<exists>r s. ps' ! j = Resolved (Some r) \<and> resultSetFromHrana BigInt r = Inr s"
  proof (intro allI impI)
    fix j
    assume "j < i"
    then have "Suc j < Suc i" by simp
    with Suc.prems(2) have
      "\<exists>r s. ps ! Suc j = Resolved (Some r) \<and> resultSetFromHrana BigInt r = Inr s"
      by blast
    then show "\<exists>r s. ps' ! j = Resolved (Some r) \<and> resultSetFromHrana BigInt r = Inr s"
      by (simp add: ps)
  qed
  have "i \<le> length ps'"
    using Suc.prems(1) by (simp add: ps)
  from Suc.IH [OF this later, of "acc @ [s]"] obtain sets where
    "await_stmts BigInt ps' (acc @ [s]) = await_stmts BigInt (drop i ps') ((acc @ [s]) @ sets)"
    by blast
  then have "await_stmts BigInt ps acc = await_stmts BigInt (drop (Suc i) ps) (acc @ (s # sets))"
    using p rs by (simp add: ps)
  then show ?case by blast
qed

lemma await_stmts_first:
  assumes i: "i < length ps"
    and ok: "\<forall>j<i. \<exists>r s. ps ! j = Resolved (Some r) \<and> resultSetFromHrana BigInt r = Inr s"
  shows "ps ! i = Rejected e \<Longrightarrow> await_stmts BigInt ps acc = Inl e"
    and "ps ! i = Resolved None \<Longrightarrow> await_stmts BigInt ps acc = Inl missing_result"
    and "ps ! i = Resolved (Some r) \<Longrightarrow> resultSetFromHrana BigInt r = Inl e \<Longrightarrow>
         await_stmts BigInt ps acc = Inl e"
proof -
  from i have "i \<le> length ps" by simp
  from await_stmts_skip [OF this ok, of acc] obtain sets where
    skip: "await_stmts BigInt ps acc = await_stmts BigInt (drop i ps) (acc @ sets)"
    by blast
  have drop: "drop i ps = ps ! i # drop (Suc i) ps"
    using i by (simp add: Cons_nth_drop_Suc)
  show "ps ! i = Rejected e \<Longrightarrow> await_stmts BigInt ps acc = Inl e"
    by (simp add: skip drop)
  show "ps ! i = Resolved None \<Longrightarrow> await_stmts BigInt ps acc = Inl missing_result"
    by (simp add: skip drop)
  show "ps ! i = Resolved (Some r) \<Longrightarrow> resultSetFromHrana BigInt r = Inl e \<Longrightarrow>
        await_stmts BigInt ps acc = Inl e"
    by (simp add: skip drop)
qed

lemma executeHranaBatch_unfold:
  "executeHranaBatch BigInt [] stmts resp =
     \<lparr>submitted =
        [\<lparr>cond = None, body = Run ''BEGIN''\<rparr> #
         map (\<lambda>(i, s). \<lparr>cond = Some (CondOk i), body = Query s\<rparr>) (enumerate 0 stmts) @
         [\<lparr>cond = Some (CondOk (length stmts)), body = Run ''COMMIT''\<rparr>,
          \<lparr>cond = Some (CondNot (CondOk (Suc (length stmts)))), body = Run ''ROLLBACK''\<rparr>]],
      returned =
        (case batch_execute_promise resp of
           Rejected e \<Rightarrow> Inl e
         | Resolved _ \<Rightarrow>
             (case step_promise resp 0 of
                Rejected e \<Rightarrow> Inl e
              | Resolved _ \<Rightarrow>
                  (case await_stmts BigInt
                          (map (\<lambda>j. step_promise resp (Suc j)) [0 ..< length stmts]) [] of
                     Inl e \<Rightarrow> Inl e
                   | Inr resultSets \<Rightarrow>
                       (case step_promise resp (Suc (length stmts)) of
                          Rejected e \<Rightarrow> Inl e
                        | Resolved _ \<Rightarrow> Inr resultSets)))),
      rollback_caught = catch_undefined (step_promise resp (Suc (Suc (length stmts))))\<rparr>"
  by (simp add: executeHranaBatch_def add_step_def stmt_steps_eq stmt_promises_eq Let_def
      split: settled.split sum.split)

lemma step_promise_update_other:
  "i \<noteq> k \<Longrightarrow> step_promise (BatchResult (os[k := x])) i = step_promise (BatchResult os) i"
  by simp

lemma catch_undefined_resolved: "\<exists>v. catch_undefined p = Resolved v"
  by (cases p) simp_all

text \<open>
  C4: on a fresh batch, \<open>executeHranaBatch\<close> over the statements \<open>stmts\<close> builds the
  steps \<open>BEGIN\<close>, then each statement conditioned on \<open>ok\<close> of the step before it (the
  first on \<open>ok(BEGIN)\<close>), then \<open>COMMIT\<close> conditioned on \<open>ok\<close> of the last statement's
  step, then \<open>ROLLBACK\<close> conditioned on \<open>not(ok(COMMIT))\<close>, and submits that one batch
  once. The failure of the \<open>ROLLBACK\<close> step is swallowed: the promise that the function
  leaves behind for it is never rejected (when the step fails it resolves to
  \<open>undefined\<close>), and what the function returns or throws is the same whatever the
  outcome of that step is.
\<close>

theorem executeHranaBatch_steps:
  "submitted (executeHranaBatch BigInt [] stmts resp) =
     [\<lparr>cond = None, body = Run ''BEGIN''\<rparr> #
      map (\<lambda>(i, s). \<lparr>cond = Some (CondOk i), body = Query s\<rparr>) (enumerate 0 stmts) @
      [\<lparr>cond = Some (CondOk (length stmts)), body = Run ''COMMIT''\<rparr>,
       \<lparr>cond = Some (CondNot (CondOk (Suc (length stmts)))), body = Run ''ROLLBACK''\<rparr>]]
   \<and> returned (executeHranaBatch BigInt [] stmts (BatchResult (os[length stmts + 2 := x]))) =
     returned (executeHranaBatch BigInt [] stmts (BatchResult os))
   \<and> rollback_caught (executeHranaBatch BigInt [] stmts resp) \<noteq> Rejected e
   \<and> (step_promise resp (length stmts + 2) = Rejected e \<longrightarrow>
        rollback_caught (executeHranaBatch BigInt [] stmts resp) = Resolved None)"
proof -
  let ?r = "BatchResult (os[length stmts + 2 := x])"
  have A: "map (\<lambda>j. step_promise ?r (Suc j)) [0 ..< length stmts] =
        map (\<lambda>j. step_promise (BatchResult os) (Suc j)) [0 ..< length stmts]"
    by (rule map_cong [OF refl]) (simp del: step_promise.simps add: step_promise_update_other)
  have B: "step_promise ?r 0 = step_promise (BatchResult os) 0"
    by (simp del: step_promise.simps add: step_promise_update_other)
  have C: "step_promise ?r (Suc (length stmts)) = step_promise (BatchResult os) (Suc (length stmts))"
    by (simp del: step_promise.simps add: step_promise_update_other)
  have D: "batch_execute_promise ?r = batch_execute_promise (BatchResult os)"
    by simp
  have same: "returned (executeHranaBatch BigInt [] stmts ?r) =
      returned (executeHranaBatch BigInt [] stmts (BatchResult os))"
    unfolding executeHranaBatch_unfold batch_run.simps A B C D by (rule refl)
  have steps: "submitted (executeHranaBatch BigInt [] stmts resp) =
     [\<lparr>cond = None, body = Run ''BEGIN''\<rparr> #
      map (\<lambda>(i, s). \<lparr>cond = Some (CondOk i), body = Query s\<rparr>) (enumerate 0 stmts) @
      [\<lparr>cond = Some (CondOk (length stmts)), body = Run ''COMMIT''\<rparr>,
       \<lparr>cond = Some (CondNot (CondOk (Suc (length stmts)))), body = Run ''ROLLBACK''\<rparr>]]"
    unfolding executeHranaBatch_unfold batch_run.simps by (rule refl)
  have caught: "rollback_caught (executeHranaBatch BigInt [] stmts resp) \<noteq> Rejected e"
    using catch_undefined_resolved [of "step_promise resp (Suc (Suc (length stmts)))"]
    by (auto simp: executeHranaBatch_unfold simp del: step_promise.simps)
  have failed: "rollback_caught (executeHranaBatch BigInt [] stmts resp) = Resolved None"
    if "step_promise resp (length stmts + 2) = Rejected e"
    using that by (simp add: executeHranaBatch_unfold del: step_promise.simps)
  from same steps caught failed show ?thesis
    by blast
qed

theorem executeHranaBatch_steps_witness:
  "submitted (executeHranaBatch (\<lambda>v::int. Inr v) []
         [demo_newStmt ''SELECT 1'', demo_newStmt ''SELECT 2'']
         (BatchResult [StepOk (demo_rows ''BEGIN''), StepOk (demo_rows ''1''),
            StepOk (demo_rows ''2''), StepError demo_error,
            StepError (OtherThrown ''rollback failed'')])) =
     [[\<lparr>cond = None, body = Run ''BEGIN''\<rparr>,
       \<lparr>cond = Some (CondOk 0), body = Query (demo_newStmt ''SELECT 1'')\<rparr>,
       \<lparr>cond = Some (CondOk 1), body = Query (demo_newStmt ''SELECT 2'')\<rparr>,
       \<lparr>cond = Some (CondOk 2), body = Run ''COMMIT''\<rparr>,
       \<lparr>cond = Some (CondNot (CondOk 3)), body = Run ''ROLLBACK''\<rparr>]]
   \<and> returned (executeHranaBatch (\<lambda>v::int. Inr v) []
         [demo_newStmt ''SELECT 1'', demo_newStmt ''SELECT 2'']
         (BatchResult [StepOk (demo_rows ''BEGIN''), StepOk (demo_rows ''1''),
            StepOk (demo_rows ''2''), StepError demo_error,
            StepError (OtherThrown ''rollback failed'')])) =
     returned (executeHranaBatch (\<lambda>v::int. Inr v) []
         [demo_newStmt ''SELECT 1'', demo_newStmt ''SELECT 2'']
         (BatchResult [StepOk (demo_rows ''BEGIN''), StepOk (demo_rows ''1''),
            StepOk (demo_rows ''2''), StepError demo_error,
            StepOk (demo_rows ''ROLLBACK'')]))
   \<and> rollback_caught (executeHranaBatch (\<lambda>v::int. Inr v) []
         [demo_newStmt ''SELECT 1'', demo_newStmt ''SELECT 2'']
         (BatchResult [StepOk (demo_rows ''BEGIN''), StepOk (demo_rows ''1''),
            StepOk (demo_rows ''2''), StepError demo_error,
            StepError (OtherThrown ''rollback failed'')])) =
     Resolved None
   \<and> returned (executeHranaBatch (\<lambda>v::int. Inr v) []
         [demo_newStmt ''SELECT 1'', demo_newStmt ''SELECT 2'']
         (BatchResult [StepOk (demo_rows ''BEGIN''), StepOk (demo_rows ''1''),
            StepOk (demo_rows ''2''), StepError demo_error,
            StepError (OtherThrown ''rollback failed'')])) =
     Inl demo_error"
  using executeHranaBatch_steps
      [where BigInt = "\<lambda>v::int. Inr v"
         and stmts = "[demo_newStmt ''SELECT 1'', demo_newStmt ''SELECT 2'']"
         and resp = "BatchResult [StepOk (demo_rows ''BEGIN''), StepOk (demo_rows ''1''),
            StepOk (demo_rows ''2''), StepError demo_error,
            StepError (OtherThrown ''rollback failed'')]"
         and os = "[StepOk (demo_rows ''BEGIN''), StepOk (demo_rows ''1''),
            StepOk (demo_rows ''2''), StepError demo_error,
            StepOk (demo_rows ''ROLLBACK'')]"
         and x = "StepError (OtherThrown ''rollback failed'')"
         and e = "OtherThrown ''rollback failed''"]
  by (simp add: enumerate_eq_zip executeHranaBatch_unfold upt_rec resultSetFromHrana_def
      demo_rows_def)

text \<open>
  C3, as amended: \<open>executeHranaBatch\<close> over \<open>N\<close> statements never returns a list of
  another length than \<open>N\<close>, and it fails whenever the result of a statement step is
  missing. It awaits the submission, \<open>BEGIN\<close>, each statement step in order and
  \<open>COMMIT\<close>, and what it throws is the first failure on that way: the error of the
  submission or of the step that failed, what the mapping of a result threw, or, for a
  statement step whose result is missing when nothing before it failed, the
  \<open>LibsqlError\<close> of code \<open>SERVER_ERROR\<close>. When the submission, \<open>BEGIN\<close>, all \<open>N\<close> statement
  steps (and the mapping of their results) and \<open>COMMIT\<close> succeed, it returns the \<open>N\<close>
  result sets in submission order.
\<close>

theorem executeHranaBatch_results:
  "(returned (executeHranaBatch BigInt [] stmts resp) = Inr resultSets \<longrightarrow>
      length resultSets = length stmts)
   \<and> (i < length stmts \<and> step_promise resp (Suc i) = Resolved None \<longrightarrow>
      (\<exists>e. returned (executeHranaBatch BigInt [] stmts resp) = Inl e))
   \<and> (batch_execute_promise resp = Rejected e \<longrightarrow>
      returned (executeHranaBatch BigInt [] stmts resp) = Inl e)
   \<and> (batch_execute_promise resp = Resolved u \<and> step_promise resp 0 = Rejected e \<longrightarrow>
      returned (executeHranaBatch BigInt [] stmts resp) = Inl e)
   \<and> (batch_execute_promise resp = Resolved u \<and> step_promise resp 0 = Resolved b \<and>
      i < length stmts \<and>
      (\<forall>j<i. step_promise resp (Suc j) = Resolved (Some (rs ! j)) \<and>
             resultSetFromHrana BigInt (rs ! j) = Inr (sets ! j)) \<and>
      step_promise resp (Suc i) = Rejected e \<longrightarrow>
      returned (executeHranaBatch BigInt [] stmts resp) = Inl e)
   \<and> (batch_execute_promise resp = Resolved u \<and> step_promise resp 0 = Resolved b \<and>
      i < length stmts \<and>
      (\<forall>j<i. step_promise resp (Suc j) = Resolved (Some (rs ! j)) \<and>
             resultSetFromHrana BigInt (rs ! j) = Inr (sets ! j)) \<and>
      step_promise resp (Suc i) = Resolved None \<longrightarrow>
      returned (executeHranaBatch BigInt [] stmts resp) =
        Inl (LibsqlError ''Server did not return a result for statement in a batch''
               ''SERVER_ERROR'' None))
   \<and> (batch_execute_promise resp = Resolved u \<and> step_promise resp 0 = Resolved b \<and>
      i < length stmts \<and>
      (\<forall>j<i. step_promise resp (Suc j) = Resolved (Some (rs ! j)) \<and>
             resultSetFromHrana BigInt (rs ! j) = Inr (sets ! j)) \<and>
      step_promise resp (Suc i) = Resolved (Some r) \<and> resultSetFromHrana BigInt r = Inl e \<longrightarrow>
      returned (executeHranaBatch BigInt [] stmts resp) = Inl e)
   \<and> (batch_execute_promise resp = Resolved u \<and> step_promise resp 0 = Resolved b \<and>
      length rs = length stmts \<and>
      (\<forall>j<length stmts. step_promise resp (Suc j) = Resolved (Some (rs ! j))) \<and>
      map (resultSetFromHrana BigInt) rs = map Inr sets \<and>
      step_promise resp (Suc (length stmts)) = Rejected e \<longrightarrow>
      returned (executeHranaBatch BigInt [] stmts resp) = Inl e)
   \<and> (batch_execute_promise resp = Resolved u \<and> step_promise resp 0 = Resolved b \<and>
      length rs = length stmts \<and>
      (\<forall>j<length stmts. step_promise resp (Suc j) = Resolved (Some (rs ! j))) \<and>
      map (resultSetFromHrana BigInt) rs = map Inr sets \<and>
      step_promise resp (Suc (length stmts)) = Resolved c \<longrightarrow>
      returned (executeHranaBatch BigInt [] stmts resp) = Inr sets)"
proof -
  let ?ps = "map (\<lambda>j. step_promise resp (Suc j)) [0 ..< length stmts]"
  let ?ret = "returned (executeHranaBatch BigInt [] stmts resp)"
  have len: "length ?ps = length stmts" by simp
  have nth: "?ps ! j = step_promise resp (Suc j)" if "j < length stmts" for j
    using that by simp
  have prefix: "\<forall>j<i. \<exists>r s. ?ps ! j = Resolved (Some r) \<and> resultSetFromHrana BigInt r = Inr s"
    if "i < length stmts"
       "\<forall>j<i. step_promise resp (Suc j) = Resolved (Some (rs ! j)) \<and>
              resultSetFromHrana BigInt (rs ! j) = Inr (sets ! j)"
  proof (intro allI impI)
    fix j
    assume "j < i"
    with that(1) have "j < length stmts" by simp
    from nth [OF this] that(2) \<open>j < i\<close>
    show "\<exists>r s. ?ps ! j = Resolved (Some r) \<and> resultSetFromHrana BigInt r = Inr s"
      by simp
  qed
  have 1: "length resultSets = length stmts" if "?ret = Inr resultSets"
  proof -
    from that have "await_stmts BigInt ?ps [] = Inr resultSets"
      by (simp add: executeHranaBatch_unfold split: settled.splits sum.splits)
    from await_stmts_length [OF this] show ?thesis by simp
  qed
  have 2: "\<exists>e. ?ret = Inl e"
    if "i < length stmts" "step_promise resp (Suc i) = Resolved None"
  proof -
    have "i < length ?ps"
      using that(1) by simp
    then have "?ps ! i \<in> set ?ps"
      by (rule nth_mem)
    then have "Resolved None \<in> set ?ps"
      using nth [OF that(1)] that(2) by simp
    from await_stmts_missing [OF this, of BigInt "[]"]
    obtain e where "await_stmts BigInt ?ps [] = Inl e" by blast
    then show ?thesis
      by (simp add: executeHranaBatch_unfold split: settled.splits)
  qed
  have 3: "?ret = Inl e" if "batch_execute_promise resp = Rejected e"
    using that by (simp add: executeHranaBatch_unfold)
  have 4: "?ret = Inl e"
    if "batch_execute_promise resp = Resolved u" "step_promise resp 0 = Rejected e"
    using that by (simp add: executeHranaBatch_unfold)
  have 5: "?ret = Inl e"
    if "batch_execute_promise resp = Resolved u" "step_promise resp 0 = Resolved b"
       "i < length stmts"
       "\<forall>j<i. step_promise resp (Suc j) = Resolved (Some (rs ! j)) \<and>
              resultSetFromHrana BigInt (rs ! j) = Inr (sets ! j)"
       "step_promise resp (Suc i) = Rejected e"
  proof -
    have "i < length ?ps" "?ps ! i = Rejected e"
      using that(3,5) nth [of i] by simp_all
    from await_stmts_first(1) [OF this(1) prefix [OF that(3,4)] this(2), of "[]"]
    show ?thesis
      using that(1,2) by (simp add: executeHranaBatch_unfold)
  qed
  have 6: "?ret = Inl (LibsqlError ''Server did not return a result for statement in a batch''
               ''SERVER_ERROR'' None)"
    if "batch_execute_promise resp = Resolved u" "step_promise resp 0 = Resolved b"
       "i < length stmts"
       "\<forall>j<i. step_promise resp (Suc j) = Resolved (Some (rs ! j)) \<and>
              resultSetFromHrana BigInt (rs ! j) = Inr (sets ! j)"
       "step_promise resp (Suc i) = Resolved None"
  proof -
    have "i < length ?ps" "?ps ! i = Resolved None"
      using that(3,5) nth [of i] by simp_all
    from await_stmts_first(2) [OF this(1) prefix [OF that(3,4)] this(2), of "[]"]
    show ?thesis
      using that(1,2) by (simp add: executeHranaBatch_unfold missing_result_def)
  qed
  have 7: "?ret = Inl e"
    if "batch_execute_promise resp = Resolved u" "step_promise resp 0 = Resolved b"
       "i < length stmts"
       "\<forall>j<i. step_promise resp (Suc j) = Resolved (Some (rs ! j)) \<and>
              resultSetFromHrana BigInt (rs ! j) = Inr (sets ! j)"
       "step_promise resp (Suc i) = Resolved (Some r)" "resultSetFromHrana BigInt r = Inl e"
  proof -
    have "i < length ?ps" "?ps ! i = Resolved (Some r)"
      using that(3,5) nth [of i] by simp_all
    from await_stmts_first(3) [OF this(1) prefix [OF that(3,4)] this(2) that(6), of "[]"]
    show ?thesis
      using that(1,2) by (simp add: executeHranaBatch_unfold)
  qed
  have all: "await_stmts BigInt ?ps [] = Inr sets"
    if "length rs = length stmts"
       "\<forall>j<length stmts. step_promise resp (Suc j) = Resolved (Some (rs ! j))"
       "map (resultSetFromHrana BigInt) rs = map Inr sets"
  proof -
    have "?ps = map (\<lambda>r. Resolved (Some r)) rs"
      using that(1,2) nth by (intro nth_equalityI) simp_all
    then show ?thesis
      using await_stmts_all_ok [OF that(3), of "[]"] by simp
  qed
  have 8: "?ret = Inl e"
    if "batch_execute_promise resp = Resolved u" "step_promise resp 0 = Resolved b"
       "length rs = length stmts"
       "\<forall>j<length stmts. step_promise resp (Suc j) = Resolved (Some (rs ! j))"
       "map (resultSetFromHrana BigInt) rs = map Inr sets"
       "step_promise resp (Suc (length stmts)) = Rejected e"
    using all [OF that(3,4,5)] that(1,2,6) by (simp add: executeHranaBatch_unfold)
  have 9: "?ret = Inr sets"
    if "batch_execute_promise resp = Resolved u" "step_promise resp 0 = Resolved b"
       "length rs = length stmts"
       "\<forall>j<length stmts. step_promise resp (Suc j) = Resolved (Some (rs ! j))"
       "map (resultSetFromHrana BigInt) rs = map Inr sets"
       "step_promise resp (Suc (length stmts)) = Resolved c"
    using all [OF that(3,4,5)] that(1,2,6) by (simp add: executeHranaBatch_unfold)
  show ?thesis
  proof (intro conjI impI; (elim conjE)?)
    show "length resultSets = length stmts" if "?ret = Inr resultSets"
      using that by (rule 1)
  qed (rule 2 3 4 5 6 7 8 9; assumption)+
qed

theorem executeHranaBatch_results_witness:
  "returned (executeHranaBatch (\<lambda>v::int. Inr v) []
       [demo_newStmt ''SELECT 1'', demo_newStmt ''SELECT 2'']
       (BatchResult [StepOk (demo_rows ''b''), StepOk (demo_rows ''1''),
          StepOk (demo_rows ''2''), StepOk (demo_rows ''c''), StepNotRun])) =
     Inr [demo_set ''1'', demo_set ''2'']
   \<and> returned (executeHranaBatch (\<lambda>v::int. Inr v) []
       [demo_newStmt ''SELECT 1'', demo_newStmt ''SELECT 2'']
       (BatchResult [StepOk (demo_rows ''b''), StepOk (demo_rows ''1''), StepNotRun,
          StepNotRun, StepNotRun])) =
     Inl (LibsqlError ''Server did not return a result for statement in a batch''
            ''SERVER_ERROR'' None)
   \<and> returned (executeHranaBatch (\<lambda>v::int. Inr v) []
       [demo_newStmt ''SELECT 1'', demo_newStmt ''SELECT 2'']
       (RequestFailed (OtherThrown ''network'') :: (nat list, int) response)) =
     Inl (OtherThrown ''network'')
   \<and> returned (executeHranaBatch (\<lambda>v::int. Inr v) []
       [demo_newStmt ''SELECT 1'', demo_newStmt ''SELECT 2'']
       (BatchResult [StepError demo_error, StepNotRun, StepNotRun, StepNotRun,
          StepOk (demo_rows ''r'')])) =
     Inl demo_error
   \<and> returned (executeHranaBatch (\<lambda>v::int. Inr v) []
       [demo_newStmt ''SELECT 1'', demo_newStmt ''SELECT 2'']
       (BatchResult [StepOk (demo_rows ''b''), StepOk (demo_rows ''1''),
          StepError demo_error, StepNotRun, StepOk (demo_rows ''r'')])) =
     Inl demo_error
   \<and> returned (executeHranaBatch demo_BigInt []
       [demo_newStmt ''SELECT 1'', demo_newStmt ''SELECT 2'']
       (BatchResult [StepOk (demo_rows ''b''), StepOk (demo_rows ''1''),
          StepOk ((demo_rows ''2'')\<lparr>lastInsertRowid := Some 0\<rparr>), StepNotRun,
          StepOk (demo_rows ''r'')])) =
     Inl (OtherThrown ''SyntaxError'')
   \<and> returned (executeHranaBatch (\<lambda>v::int. Inr v) []
       [demo_newStmt ''SELECT 1'', demo_newStmt ''SELECT 2'']
       (BatchResult [StepOk (demo_rows ''b''), StepOk (demo_rows ''1''),
          StepOk (demo_rows ''2''), StepError demo_error, StepOk (demo_rows ''r'')])) =
     Inl demo_error"
  using
    executeHranaBatch_results
      [where BigInt = "\<lambda>v::int. Inr v"
         and stmts = "[demo_newStmt ''SELECT 1'', demo_newStmt ''SELECT 2'']"
         and resp = "BatchResult [StepOk (demo_rows ''b''), StepOk (demo_rows ''1''),
            StepOk (demo_rows ''2''), StepOk (demo_rows ''c''), StepNotRun]"
         and resultSets = "[demo_set ''1'', demo_set ''2'']" and i = 0 and e = demo_error
         and u = "()" and b = "Some (demo_rows ''b'')"
         and rs = "[demo_rows ''1'', demo_rows ''2'']"
         and sets = "[demo_set ''1'', demo_set ''2'']" and r = "demo_rows ''1''"
         and c = "Some (demo_rows ''c'')"]
    executeHranaBatch_results
      [where BigInt = "\<lambda>v::int. Inr v"
         and stmts = "[demo_newStmt ''SELECT 1'', demo_newStmt ''SELECT 2'']"
         and resp = "BatchResult [StepOk (demo_rows ''b''), StepOk (demo_rows ''1''),
            StepNotRun, StepNotRun, StepNotRun]"
         and resultSets = "[]" and i = 1 and e = demo_error
         and u = "()" and b = "Some (demo_rows ''b'')"
         and rs = "[demo_rows ''1'']" and sets = "[demo_set ''1'']" and r = "demo_rows ''1''"
         and c = None]
    executeHranaBatch_results
      [where BigInt = "\<lambda>v::int. Inr v"
         and stmts = "[demo_newStmt ''SELECT 1'', demo_newStmt ''SELECT 2'']"
         and resp = "RequestFailed (OtherThrown ''network'') :: (nat list, int) response"
         and resultSets = "[]" and i = 0 and e = "OtherThrown ''network''"
         and u = "()" and b = None
         and rs = "[]" and sets = "[]" and r = "demo_rows ''1''" and c = None]
    executeHranaBatch_results
      [where BigInt = "\<lambda>v::int. Inr v"
         and stmts = "[demo_newStmt ''SELECT 1'', demo_newStmt ''SELECT 2'']"
         and resp = "BatchResult [StepError demo_error, StepNotRun, StepNotRun, StepNotRun,
            StepOk (demo_rows ''r'')]"
         and resultSets = "[]" and i = 0 and e = demo_error
         and u = "()" and b = None
         and rs = "[]" and sets = "[]" and r = "demo_rows ''1''" and c = None]
    executeHranaBatch_results
      [where BigInt = "\<lambda>v::int. Inr v"
         and stmts = "[demo_newStmt ''SELECT 1'', demo_newStmt ''SELECT 2'']"
         and resp = "BatchResult [StepOk (demo_rows ''b''), StepOk (demo_rows ''1''),
            StepError demo_error, StepNotRun, StepOk (demo_rows ''r'')]"
         and resultSets = "[]" and i = 1 and e = demo_error
         and u = "()" and b = "Some (demo_rows ''b'')"
         and rs = "[demo_rows ''1'']" and sets = "[demo_set ''1'']" and r = "demo_rows ''1''"
         and c = None]
    executeHranaBatch_results
      [where BigInt = demo_BigInt
         and stmts = "[demo_newStmt ''SELECT 1'', demo_newStmt ''SELECT 2'']"
         and resp = "BatchResult [StepOk (demo_rows ''b''), StepOk (demo_rows ''1''),
            StepOk ((demo_rows ''2'')\<lparr>lastInsertRowid := Some 0\<rparr>), StepNotRun,
            StepOk (demo_rows ''r'')]"
         and resultSets = "[]" and i = 1 and e = "OtherThrown ''SyntaxError''"
         and u = "()" and b = "Some (demo_rows ''b'')"
         and rs = "[demo_rows ''1'']" and sets = "[demo_set ''1'']"
         and r = "(demo_rows ''2'')\<lparr>lastInsertRowid := Some 0\<rparr>"
         and c = None]
    executeHranaBatch_results
      [where BigInt = "\<lambda>v::int. Inr v"
         and stmts = "[demo_newStmt ''SELECT 1'', demo_newStmt ''SELECT 2'']"
         and resp = "BatchResult [StepOk (demo_rows ''b''), StepOk (demo_rows ''1''),
            StepOk (demo_rows ''2''), StepError demo_error, StepOk (demo_rows ''r'')]"
         and resultSets = "[]" and i = 0 and e = demo_error
         and u = "()" and b = "Some (demo_rows ''b'')"
         and rs = "[demo_rows ''1'', demo_rows ''2'']"
         and sets = "[demo_set ''1'', demo_set ''2'']" and r = "demo_rows ''1''"
         and c = None]
  by (simp add: resultSetFromHrana_def demo_rows_def demo_set_def demo_BigInt_def All_less_Suc)

text \<open>
  The claim C3 as first stated fails where an earlier statement fails: for
  \<open>INSERT bad\<close>, \<open>INSERT ok\<close> the server answers with an error for the first statement
  and does not run the second; the second statement's result is missing, and
  \<open>executeHranaBatch\<close> throws the first statement's \<open>ResponseError\<close>, not a
  \<open>SERVER_ERROR\<close>.
\<close>

theorem executeHranaBatch_missing_counterexample:
  "server_steps demo_db
      (hd (submitted (executeHranaBatch (\<lambda>v::int. Inr v) []
                  [demo_newStmt ''INSERT bad'', demo_newStmt ''INSERT ok''] (BatchResult [])))) [] =
     [StepOk (demo_rows ''BEGIN''), StepError demo_error, StepNotRun, StepNotRun,
      StepOk (demo_rows ''ROLLBACK'')]
   \<and> step_promise
      (BatchResult [StepOk (demo_rows ''BEGIN''), StepError demo_error, StepNotRun, StepNotRun,
         StepOk (demo_rows ''ROLLBACK'')]) 2 = Resolved None
   \<and> returned (executeHranaBatch (\<lambda>v::int. Inr v) [] [demo_newStmt ''INSERT bad'', demo_newStmt ''INSERT ok'']
         (BatchResult [StepOk (demo_rows ''BEGIN''), StepError demo_error, StepNotRun, StepNotRun,
            StepOk (demo_rows ''ROLLBACK'')])) =
     Inl (ClientError (ResponseError (Some ''SQLITE_CONSTRAINT'')) ''constraint failed'')"
  by (simp add: executeHranaBatch_unfold demo_db_def demo_error_def demo_newStmt_def demo_env_def demo_bindIndexes_def demo_bindName_def enumerate_eq_zip
      upt_rec)

section \<open>Properties of the transaction coordinator\<close>

subsection \<open>What a step keeps\<close>

lemma continue_started:
  "started (snd (continue BigInt t tx)) = started tx"
  by (cases t)
     (auto simp: close_def stream_send_def stream_close_def
           split: option.splits settled.splits sum.splits)

lemma continue_begin_count:
  "begin_count (snd (continue BigInt t tx)) = begin_count tx"
  by (cases t)
     (auto simp: begin_count_def close_def stream_send_def stream_close_def
           split: option.splits settled.splits sum.splits)

lemma resume_started: "started (resume BigInt k tx) = started tx"
  using continue_started [of BigInt "calls tx ! k" tx]
  by (simp add: resume_def split_def Let_def)

lemma resume_begin_count: "begin_count (resume BigInt k tx) = begin_count tx"
  using continue_begin_count [of BigInt "calls tx ! k" tx]
  by (simp add: resume_def split_def Let_def begin_count_def)

lemma execute_cases [case_names Done Begin Queue]:
  obtains (Done) r where "execute c stmt tx = add_call (ExecuteDone r) tx"
  | (Begin) h where "started tx = None"
      "execute c stmt tx =
         tx\<lparr>started := Some (length (sent tx), 0),
            sent := sent tx @
              [BatchRequest [\<lparr>cond = None, body = Run ''BEGIN''\<rparr>,
                             \<lparr>cond = Some (CondOk 0), body = Query h\<rparr>]],
            calls := calls tx @ [ExecuteAwaitBegin (length (sent tx)) 1]\<rparr>"
  | (Queue) h where "started tx \<noteq> None"
      "execute c stmt tx = add_call (ExecuteAwaitStarted h) tx"
proof (cases "stream_closed tx")
  case True
  then show ?thesis
    by (intro Done) (simp add: execute_def)
next
  case opn: False
  show ?thesis
  proof (cases "stmtToHrana c stmt")
    case (Inl e)
    with opn show ?thesis
      by (intro Done) (simp add: execute_def)
  next
    case (Inr converted)
    show ?thesis
    proof (cases "applySqlCache c converted")
      case (Inl e)
      with opn Inr show ?thesis
        by (intro Done) (simp add: execute_def)
    next
      case cached: (Inr h)
      show ?thesis
      proof (cases "started tx = None")
        case True
        with opn Inr cached show ?thesis
          by (intro Begin [of h])
             (simp_all add: execute_def add_call_def add_step_def stream_send_def Let_def)
      next
        case False
        with opn Inr cached show ?thesis
          by (intro Queue [of h]) (auto simp: execute_def)
      qed
    qed
  qed
qed

lemma begin_inv_execute: "begin_inv tx \<Longrightarrow> begin_inv (execute c stmt tx)"
  by (cases c stmt tx rule: execute_cases)
     (auto simp: begin_inv_def begin_count_def add_call_def)

lemma execute_started: "started tx = Some p \<Longrightarrow> started (execute c stmt tx) = Some p"
  by (cases c stmt tx rule: execute_cases) (auto simp: add_call_def)

lemma execute_answers: "answers (execute c stmt tx) = answers tx"
  by (cases c stmt tx rule: execute_cases) (auto simp: add_call_def)

lemma commit_begin_count: "begin_count (commit tx) = begin_count tx"
  by (simp add: commit_def add_call_def close_def begin_count_def)

lemma commit_started: "started (commit tx) = started tx"
  by (simp add: commit_def add_call_def close_def)

lemma rollback_begin_count: "begin_count (rollback tx) = begin_count tx"
  by (simp add: rollback_def add_call_def close_def stream_send_def stream_close_def
      begin_count_def)

lemma rollback_started: "started (rollback tx) = started tx"
  by (simp add: rollback_def add_call_def close_def stream_send_def stream_close_def)

lemma close_begin_count: "begin_count (close tx) = begin_count tx"
  by (simp add: close_def begin_count_def)

lemma respond_begin_count: "begin_count (respond n a tx) = begin_count tx"
  by (simp add: respond_def begin_count_def)

lemma close_started: "started (close tx) = started tx"
  by (simp add: close_def)

lemma respond_started: "started (respond n a tx) = started tx"
  by (simp add: respond_def)

lemma begin_inv_step: "begin_inv tx \<Longrightarrow> begin_inv (step c B ev tx)"
proof (cases ev)
  case (Execute stmt)
  assume "begin_inv tx"
  with Execute show ?thesis by (simp add: begin_inv_execute)
qed (auto simp: begin_inv_def resume_started resume_begin_count
       commit_begin_count commit_started rollback_begin_count
       rollback_started close_begin_count respond_begin_count close_started respond_started)

lemma begin_inv_run: "begin_inv tx \<Longrightarrow> begin_inv (run c B evs tx)"
  unfolding run_def
  by (induction evs arbitrary: tx) (simp_all add: begin_inv_step)

lemma started_step: "started tx = Some p \<Longrightarrow> started (step c B ev tx) = Some p"
  by (cases ev)
     (auto simp: resume_started execute_started commit_def
           rollback_def close_def respond_def add_call_def stream_send_def
           stream_close_def Let_def)

lemma started_run: "started tx = Some p \<Longrightarrow> started (run c B evs tx) = Some p"
  unfolding run_def
  by (induction evs arbitrary: tx) (simp_all add: started_step)

lemma run_append: "run c B (evs @ evs') tx = run c B evs' (run c B evs tx)"
  by (simp add: run_def)

lemma continue_answers: "answers (snd (continue BigInt t tx)) = answers tx"
  by (cases t)
     (auto simp: close_def stream_send_def stream_close_def
           split: option.splits settled.splits sum.splits)

lemma answer_step: "answer tx n = Some a \<Longrightarrow> answer (step c B ev tx) n = Some a"
  using continue_answers [of B "calls tx ! k" tx for k]
  by (cases ev)
     (auto simp: answer_def resume_def split_def execute_answers commit_def
           rollback_def close_def respond_def add_call_def stream_send_def
           stream_close_def Let_def)

lemma started_state_step:
  "started_state tx = Some s \<Longrightarrow> started_state (step c B ev tx) = Some s"
proof -
  assume a: "started_state tx = Some s"
  then obtain b i r where st: "started tx = Some (b, i)" and an: "answer tx b = Some r"
    and s: "s = then_begin r i"
    by (auto simp: started_state_def split: option.splits)
  from started_step [OF st, of c B ev] answer_step [OF an, of c B ev] s show ?thesis
    by (simp add: started_state_def)
qed

lemma started_state_run:
  "started_state tx = Some s \<Longrightarrow> started_state (run c B evs tx) = Some s"
  unfolding run_def
  by (induction evs arbitrary: tx) (simp_all add: started_state_step)







subsection \<open>Requests and answers in a run\<close>















subsection \<open>A call of commit or rollback comes to its end\<close>















text \<open>The definitions that a concrete run unfolds.\<close>

lemmas run_defs =
  run_def execute_def commit_def rollback_def resume_def respond_def close_def closed_def
  add_call_def add_step_def stream_send_def stream_close_def answer_def started_state_def
  then_begin_def rows_promise_def new_transaction_def transaction_closed_error_def Let_def
  demo_newStmt_def demo_env_def demo_bindIndexes_def demo_bindName_def demo_begin_failed_def demo_stmt_failed_def demo_begun_def demo_submit_failed_def
  demo_pending_def demo_committing_def begin_count_def

subsection \<open>The claims\<close>



text \<open>
  C2: in every run of a new transaction, whatever the callers, their statements and
  the answers, the coordinator issues at most one \<open>BEGIN\<close>. \<open>#started\<close> is written once,
  by the first \<open>execute\<close> that gets to it on the transaction that has not started (an
  \<open>execute\<close> gets to it when the stream is open and its statement is taken by
  \<open>stmtToHrana\<close> and \<open>_applySqlCache\<close> without a throw), and its outcome, once settled,
  stays. No \<open>execute\<close> that finds \<open>#started\<close> set issues anything at the call or changes
  \<open>#started\<close>; one that gets to it waits while the outcome is pending, and on success
  issues its statement with \<open>stream.query\<close>.
\<close>

theorem one_begin_per_transaction:
  "begin_count (run c B evs new_transaction) \<le> 1
   \<and> (started (run c B evs new_transaction) = Some p \<longrightarrow>
        started (run c B (evs @ evs') new_transaction) = Some p)
   \<and> (started_state (run c B evs new_transaction) = Some s \<longrightarrow>
        started_state (run c B (evs @ evs') new_transaction) = Some s)
   \<and> (\<not> stream_closed tx \<and> started tx = None \<and> stmtToHrana c stmt = Inr converted \<and>
      applySqlCache c converted = Inr cached \<longrightarrow>
        started (execute c stmt tx) = Some (length (sent tx), 0) \<and>
        begin_count (execute c stmt tx) = Suc (begin_count tx))
   \<and> (\<not> stream_closed tx \<and> started tx = Some p \<and> stmtToHrana c stmt = Inr converted \<and>
      applySqlCache c converted = Inr cached \<longrightarrow>
        sent (execute c stmt tx) = sent tx \<and> started (execute c stmt tx) = Some p \<and>
        calls (execute c stmt tx) = calls tx @ [ExecuteAwaitStarted cached])
   \<and> (started tx = Some p \<longrightarrow>
        sent (execute c stmt tx) = sent tx \<and> started (execute c stmt tx) = Some p)
   \<and> (k < length (calls tx) \<and> calls tx ! k = ExecuteAwaitStarted h \<and>
      started_state tx = None \<longrightarrow> resume B k tx = tx)
   \<and> (k < length (calls tx) \<and> calls tx ! k = ExecuteAwaitStarted h \<and>
      started_state tx = Some (Resolved ()) \<longrightarrow>
        sent (resume B k tx) = sent tx @ [QueryRequest h] \<and>
        calls (resume B k tx) = (calls tx)[k := ExecuteAwaitRows (length (sent tx)) None])"
proof -
  have init: "begin_inv (new_transaction :: ('a, 'b, 'c) transaction)"
    by (simp add: begin_inv_def begin_count_def new_transaction_def)
  have "begin_inv (run c B evs (new_transaction :: ('a, 'b, 'c) transaction))"
    by (rule begin_inv_run [OF init])
  then have 1: "begin_count (run c B evs (new_transaction :: ('a, 'b, 'c) transaction)) \<le> 1"
    by (simp add: begin_inv_def split: if_splits)
  have 2: "started (run c B (evs @ evs') new_transaction) = Some p"
    if "started (run c B evs (new_transaction :: ('a, 'b, 'c) transaction)) = Some p"
    using started_run [OF that] by (simp add: run_append)
  have 3: "started_state (run c B (evs @ evs') new_transaction) = Some s"
    if "started_state (run c B evs (new_transaction :: ('a, 'b, 'c) transaction)) = Some s"
    using started_state_run [OF that] by (simp add: run_append)
  have 4: "started (execute c stmt tx) = Some (length (sent tx), 0) \<and>
        begin_count (execute c stmt tx) = Suc (begin_count tx)"
    if "\<not> stream_closed tx" "started tx = None" "stmtToHrana c stmt = Inr converted"
       "applySqlCache c converted = Inr cached"
    using that
    by (simp add: execute_def add_call_def add_step_def stream_send_def begin_count_def Let_def)
  have 5: "sent (execute c stmt tx) = sent tx \<and> started (execute c stmt tx) = Some p \<and>
        calls (execute c stmt tx) = calls tx @ [ExecuteAwaitStarted cached]"
    if "\<not> stream_closed tx" "started tx = Some p" "stmtToHrana c stmt = Inr converted"
       "applySqlCache c converted = Inr cached"
    using that by (simp add: execute_def add_call_def Let_def)
  have keeps: "sent (execute c stmt tx) = sent tx \<and> started (execute c stmt tx) = Some p"
    if "started tx = Some p"
    using that by (cases c stmt tx rule: execute_cases) (auto simp: add_call_def)
  have 6: "resume B k tx = tx"
    if "k < length (calls tx)" "calls tx ! k = ExecuteAwaitStarted h" "started_state tx = None"
    using that by (simp add: resume_def list_update_same_conv)
  have 7: "sent (resume B k tx) = sent tx @ [QueryRequest h] \<and>
        calls (resume B k tx) = (calls tx)[k := ExecuteAwaitRows (length (sent tx)) None]"
    if "k < length (calls tx)" "calls tx ! k = ExecuteAwaitStarted h"
       "started_state tx = Some (Resolved ())"
    using that by (simp add: resume_def stream_send_def)
  from 1 2 3 4 5 keeps 6 7 show ?thesis
    by blast
qed

theorem one_begin_per_transaction_witness:
  "begin_count
     (run demo_env (\<lambda>v. Inr v)
        [Execute (SqlString ''SELECT 1''), Execute (SqlString ''SELECT 2''),
         Respond 0 (BatchResult [StepOk (demo_rows ''BEGIN''), StepOk (demo_rows ''1'')]),
         Resume 1, Resume 0, Execute (SqlString ''SELECT 3'')]
        (new_transaction :: (Stmt, nat list, int) transaction)) \<le> 1
   \<and> started
       (run demo_env (\<lambda>v. Inr v)
          ([Execute (SqlString ''SELECT 1'')] @
           [Execute (SqlString ''SELECT 2''),
            Respond 0 (BatchResult [StepOk (demo_rows ''BEGIN''), StepOk (demo_rows ''1'')]),
            Resume 1, Resume 0, Execute (SqlString ''SELECT 3'')])
          (new_transaction :: (Stmt, nat list, int) transaction)) = Some (0, 0)
   \<and> started (execute demo_env (SqlString ''SELECT 1'')
         (new_transaction :: (Stmt, nat list, int) transaction)) = Some (0, 0)
   \<and> calls (execute demo_env (SqlString ''SELECT 3'') demo_begun) =
       [ExecuteAwaitBegin 0 1, ExecuteAwaitStarted (demo_newStmt ''SELECT 2''),
        ExecuteAwaitStarted (demo_newStmt ''SELECT 3'')]
   \<and> sent (execute demo_env (SqlString ''SELECT 3'') demo_begun) = sent demo_begun
   \<and> resume (\<lambda>v. Inr v) 1 demo_pending = demo_pending
   \<and> sent (resume (\<lambda>v. Inr v) 1 demo_begun) =
       [BatchRequest [\<lparr>cond = None, body = Run ''BEGIN''\<rparr>,
                      \<lparr>cond = Some (CondOk 0), body = Query (demo_newStmt ''SELECT 1'')\<rparr>],
        QueryRequest (demo_newStmt ''SELECT 2'')]"
  using
    one_begin_per_transaction
      [where c = demo_env and B = "\<lambda>v. Inr v"
         and evs = "[Execute (SqlString ''SELECT 1''), Execute (SqlString ''SELECT 2''),
             Respond 0 (BatchResult [StepOk (demo_rows ''BEGIN''), StepOk (demo_rows ''1'')]),
             Resume 1, Resume 0, Execute (SqlString ''SELECT 3'')]"
         and evs' = "[]" and p = "(0, 0)" and s = "Resolved ()"
         and tx = demo_begun and stmt = "SqlString ''SELECT 3''" and k = 1
         and converted = "demo_newStmt ''SELECT 3''" and cached = "demo_newStmt ''SELECT 3''"
         and h = "demo_newStmt ''SELECT 2''"]
    one_begin_per_transaction
      [where c = demo_env and B = "\<lambda>v. Inr v"
         and evs = "[Execute (SqlString ''SELECT 1'')]"
         and evs' = "[Execute (SqlString ''SELECT 2''),
             Respond 0 (BatchResult [StepOk (demo_rows ''BEGIN''), StepOk (demo_rows ''1'')]),
             Resume 1, Resume 0, Execute (SqlString ''SELECT 3'')]"
         and p = "(0, 0)" and s = "Resolved ()"
         and tx = "new_transaction :: (Stmt, nat list, int) transaction"
         and stmt = "SqlString ''SELECT 1''" and k = 1
         and converted = "demo_newStmt ''SELECT 1''" and cached = "demo_newStmt ''SELECT 1''"
         and h = "demo_newStmt ''SELECT 2''"]
    one_begin_per_transaction
      [where c = demo_env and B = "\<lambda>v. Inr v"
         and evs = "[]" and evs' = "[]" and p = "(0, 0)" and s = "Resolved ()"
         and tx = demo_pending and stmt = "SqlString ''SELECT 3''" and k = 1
         and converted = "demo_newStmt ''SELECT 3''" and cached = "demo_newStmt ''SELECT 3''"
         and h = "demo_newStmt ''SELECT 2''"]
  by (simp add: run_defs)



text \<open>
  C8, as amended: once \<open>#started\<close> has rejected with \<open>e\<close> it stays so; every \<open>execute\<close>
  call that awaits it fails with the mapping of \<open>e\<close> and issues nothing; after the
  caller that sent the \<open>BEGIN\<close> batch has gone on, the transaction is closed; and a
  \<open>commit\<close> after that issues no \<open>COMMIT\<close> and fails with \<open>TRANSACTION_CLOSED\<close> (before
  the close, it fails with the mapping of \<open>e\<close>, also without a \<open>COMMIT\<close>).
\<close>

theorem begin_failure_fails_all:
  "(started_state tx = Some (Rejected e) \<longrightarrow>
      started_state (run c B evs tx) = Some (Rejected e))
   \<and> (started_state tx = Some (Rejected e) \<and> k < length (calls tx) \<and>
      (calls tx ! k = ExecuteAwaitBegin b r \<or> calls tx ! k = ExecuteAwaitStarted h) \<longrightarrow>
      calls (resume B k tx) ! k = ExecuteDone (Rejected (mapHranaError e)) \<and>
      sent (resume B k tx) = sent tx)
   \<and> (started_state tx = Some (Rejected e) \<and> k < length (calls tx) \<and>
      calls tx ! k = ExecuteAwaitBegin b r \<longrightarrow>
      closed (resume B k tx) \<and> stream_closed (resume B k tx))
   \<and> (stream_closed tx \<longrightarrow>
      commit tx =
        add_call (CommitDone (Rejected (LibsqlError
           ''Cannot commit the transaction because it is already closed''
           ''TRANSACTION_CLOSED'' None))) (close tx) \<and>
      sent (commit tx) = sent tx)
   \<and> (started_state tx = Some (Rejected e) \<and> \<not> stream_closed tx \<longrightarrow>
      calls (resume B (length (calls tx)) (commit tx)) =
        calls tx @ [CommitDone (Rejected (mapHranaError e))] \<and>
      sent (resume B (length (calls tx)) (commit tx)) = sent tx)"
proof -
  have 1: "started_state (run c B evs tx) = Some (Rejected e)"
    if "started_state tx = Some (Rejected e)"
    using that by (rule started_state_run)
  have 2: "calls (resume B k tx) ! k = ExecuteDone (Rejected (mapHranaError e)) \<and>
      sent (resume B k tx) = sent tx"
    if "started_state tx = Some (Rejected e)" "k < length (calls tx)"
       "calls tx ! k = ExecuteAwaitBegin b r \<or> calls tx ! k = ExecuteAwaitStarted h"
    using that by (auto simp: resume_def close_def)
  have 3: "closed (resume B k tx) \<and> stream_closed (resume B k tx)"
    if "started_state tx = Some (Rejected e)" "k < length (calls tx)"
       "calls tx ! k = ExecuteAwaitBegin b r"
    using that by (simp add: resume_def close_def closed_def)
  have 4: "commit tx =
        add_call (CommitDone (Rejected (LibsqlError
           ''Cannot commit the transaction because it is already closed''
           ''TRANSACTION_CLOSED'' None))) (close tx) \<and>
      sent (commit tx) = sent tx"
    if "stream_closed tx"
    using that by (simp add: commit_def transaction_closed_error_def add_call_def close_def)
  have 5: "calls (resume B (length (calls tx)) (commit tx)) =
        calls tx @ [CommitDone (Rejected (mapHranaError e))] \<and>
      sent (resume B (length (calls tx)) (commit tx)) = sent tx"
    if "started_state tx = Some (Rejected e)" "\<not> stream_closed tx"
  proof -
    from that(1) have st: "started tx \<noteq> None"
      by (auto simp: started_state_def split: option.splits)
    then have c: "commit tx = add_call CommitAwaitStarted tx"
      using that(2) by (simp add: commit_def)
    have "started_state (add_call CommitAwaitStarted tx) = Some (Rejected e)"
      using started_state_step [OF that(1), of c B Commit] by (simp add: c)
    then show ?thesis
      by (simp add: c resume_def add_call_def close_def)
  qed
  show ?thesis
    using 1 2 3 4 5 by blast
qed

theorem begin_failure_fails_all_witness:
  "calls (resume (\<lambda>v. Inr v) 1 (resume (\<lambda>v. Inr v) 0 demo_begin_failed)) =
     [ExecuteDone (Rejected (mapHranaError demo_error)),
      ExecuteDone (Rejected (mapHranaError demo_error))]
   \<and> closed (resume (\<lambda>v. Inr v) 0 demo_begin_failed)
   \<and> calls (commit (resume (\<lambda>v. Inr v) 0 demo_begin_failed)) ! 2 =
       CommitDone (Rejected (LibsqlError
          ''Cannot commit the transaction because it is already closed''
          ''TRANSACTION_CLOSED'' None))
   \<and> sent (commit (resume (\<lambda>v. Inr v) 0 demo_begin_failed)) = sent demo_begin_failed
   \<and> calls (resume (\<lambda>v. Inr v) 2 (commit demo_begin_failed)) ! 2 =
       CommitDone (Rejected (mapHranaError demo_error))
   \<and> sent (resume (\<lambda>v. Inr v) 2 (commit demo_begin_failed)) = sent demo_begin_failed"
  using
    begin_failure_fails_all
      [where tx = demo_begin_failed and e = demo_error and c = demo_env
         and B = "\<lambda>v. Inr v" and evs = "[]" and k = 0 and b = 0 and r = 1
         and h = "demo_newStmt ''x''"]
    begin_failure_fails_all
      [where tx = "resume (\<lambda>v. Inr v) 0 demo_begin_failed" and e = demo_error
         and c = demo_env and B = "\<lambda>v. Inr v" and evs = "[]" and k = 1 and b = 0 and r = 1
         and h = "demo_newStmt ''SELECT 2''"]
  by (simp add: run_defs)

text \<open>
  The claim C8 as first stated fails in its last part: after a failed \<open>BEGIN\<close> the
  \<open>commit\<close> does not return, it is rejected with \<open>TRANSACTION_CLOSED\<close>.
\<close>

theorem commit_after_begin_failure_counterexample:
  "calls
     (run demo_env (\<lambda>v. Inr v)
        [Execute (SqlString ''SELECT 1''),
         Respond 0 (BatchResult [StepError demo_error, StepNotRun]),
         Resume 0, Commit]
        (new_transaction :: (Stmt, nat list, int) transaction)) =
     [ExecuteDone (Rejected (mapHranaError demo_error)),
      CommitDone (Rejected (LibsqlError
         ''Cannot commit the transaction because it is already closed''
         ''TRANSACTION_CLOSED'' None))]
   \<and> sent
     (run demo_env (\<lambda>v. Inr v)
        [Execute (SqlString ''SELECT 1''),
         Respond 0 (BatchResult [StepError demo_error, StepNotRun]),
         Resume 0, Commit]
        (new_transaction :: (Stmt, nat list, int) transaction)) =
     [BatchRequest [\<lparr>cond = None, body = Run ''BEGIN''\<rparr>,
                    \<lparr>cond = Some (CondOk 0), body = Query (demo_newStmt ''SELECT 1'')\<rparr>]]"
  by (simp add: run_defs)

text \<open>
  C9: on a transaction whose stream is closed, \<open>execute\<close> and \<open>commit\<close> each fail with a
  \<open>LibsqlError\<close> of code \<open>TRANSACTION_CLOSED\<close> and issue nothing on the stream.
\<close>

theorem closed_stream_rejects:
  "stream_closed tx \<longrightarrow>
     execute c stmt tx =
       add_call (ExecuteDone (Rejected (LibsqlError
          ''Cannot execute a statement because the transaction is closed''
          ''TRANSACTION_CLOSED'' None))) tx
     \<and> sent (execute c stmt tx) = sent tx
     \<and> calls (commit tx) =
         calls tx @ [CommitDone (Rejected (LibsqlError
            ''Cannot commit the transaction because it is already closed''
            ''TRANSACTION_CLOSED'' None))]
     \<and> sent (commit tx) = sent tx"
  by (simp add: execute_def commit_def transaction_closed_error_def add_call_def close_def)

theorem closed_stream_rejects_witness:
  "calls (execute demo_env (SqlString ''SELECT 3'') (rollback demo_begun)) ! 3 =
     ExecuteDone (Rejected (LibsqlError
        ''Cannot execute a statement because the transaction is closed''
        ''TRANSACTION_CLOSED'' None))
   \<and> sent (execute demo_env (SqlString ''SELECT 3'') (rollback demo_begun)) =
       sent (rollback demo_begun)
   \<and> calls (commit (rollback demo_begun)) ! 3 =
       CommitDone (Rejected (LibsqlError
          ''Cannot commit the transaction because it is already closed''
          ''TRANSACTION_CLOSED'' None))
   \<and> sent (commit (rollback demo_begun)) = sent (rollback demo_begun)"
  using
    closed_stream_rejects
      [where tx = "rollback demo_begun" and c = demo_env and stmt = "SqlString ''SELECT 3''"]
  by (simp add: run_defs)

text \<open>
  C10: \<open>rollback\<close> on a transaction whose \<open>#started\<close> is still \<open>undefined\<close> and whose
  stream is open returns without failing and issues nothing on the stream (no
  \<open>ROLLBACK\<close>); the transaction is closed afterwards.
\<close>

theorem rollback_not_started:
  "\<not> stream_closed tx \<and> started tx = None \<longrightarrow>
     calls (rollback tx) = calls tx @ [RollbackDone (Resolved ())]
     \<and> sent (rollback tx) = sent tx
     \<and> closed (rollback tx) \<and> stream_closed (rollback tx)"
  by (simp add: rollback_def add_call_def close_def closed_def)

theorem rollback_not_started_witness:
  "calls (rollback (new_transaction :: (Stmt, nat list, int) transaction)) =
     [RollbackDone (Resolved ())]
   \<and> sent (rollback (new_transaction :: (Stmt, nat list, int) transaction)) = []
   \<and> closed (rollback (new_transaction :: (Stmt, nat list, int) transaction))"
  using rollback_not_started [where tx = "new_transaction :: (Stmt, nat list, int) transaction"]
  by (simp add: run_defs)

end
